theory Spec2Isabelle
  imports Complex_Main "HOL-Library.AList" "HOL-Library.Multiset" "HOL-Library.Sublist"
begin

section \<open>Numbers\<close>

text \<open>
  A JavaScript number is an IEEE 754 binary64 value: not-a-number, one of the two
  infinities, or a finite double. A finite double is modelled by the real number it
  denotes; the two zeros are one value, since the engine neither divides by a cell value
  nor reads the sign of a zero. A numeric literal denotes the double nearest to it, and an
  arithmetic operation returns its exact result rounded to the nearest double.
\<close>

datatype jsnum = NaN | PosInf | NegInf | Finite real

text \<open>Rounding to an integer, a tie going to the even neighbour.\<close>

definition roundHalfEven :: "real \<Rightarrow> int" where
  "roundHalfEven q =
     (let f = \<lfloor>q\<rfloor>; d = q - of_int f
      in if d < 1 / 2 then f else if 1 / 2 < d then f + 1 else if even f then f else f + 1)"

text \<open>
  The exponent of the unit in the last place of the doubles around \<open>x\<close>: 52 below the
  binary exponent of \<open>x\<close>, which for subnormal magnitudes is held at \<open>-1022\<close>.
\<close>

definition ulpExponent :: "real \<Rightarrow> int" where
  "ulpExponent x = max \<lfloor>log 2 \<bar>x\<bar>\<rfloor> (- 1022) - 52"

text \<open>
  Round to nearest, ties to even: the multiple of the unit in the last place nearest to
  \<open>x\<close>, and an infinity when that multiple reaches \<open>2 ^ 1024\<close>.
\<close>

definition roundToDouble :: "real \<Rightarrow> jsnum" where
  "roundToDouble x =
     (if x = 0 then Finite 0
      else
        (let u = 2 powi ulpExponent x;
             r = of_int (roundHalfEven (x / u)) * u
         in if 2 ^ 1024 \<le> \<bar>r\<bar> then (if 0 < x then PosInf else NegInf) else Finite r))"

text \<open>\<open>Math.abs(a)\<close>.\<close>

fun Math_abs :: "jsnum \<Rightarrow> jsnum" where
  "Math_abs NaN = NaN"
| "Math_abs PosInf = PosInf"
| "Math_abs NegInf = PosInf"
| "Math_abs (Finite a) = Finite \<bar>a\<bar>"

text \<open>\<open>a - b\<close>.\<close>

fun js_sub :: "jsnum \<Rightarrow> jsnum \<Rightarrow> jsnum" where
  "js_sub NaN b = NaN"
| "js_sub a NaN = NaN"
| "js_sub (Finite a) (Finite b) = roundToDouble (a - b)"
| "js_sub (Finite a) PosInf = NegInf"
| "js_sub (Finite a) NegInf = PosInf"
| "js_sub PosInf PosInf = NaN"
| "js_sub PosInf b = PosInf"
| "js_sub NegInf NegInf = NaN"
| "js_sub NegInf b = NegInf"

text \<open>\<open>a * b\<close>.\<close>

fun js_mul :: "jsnum \<Rightarrow> jsnum \<Rightarrow> jsnum" where
  "js_mul NaN b = NaN"
| "js_mul a NaN = NaN"
| "js_mul (Finite a) (Finite b) = roundToDouble (a * b)"
| "js_mul (Finite a) PosInf = (if a = 0 then NaN else if 0 < a then PosInf else NegInf)"
| "js_mul (Finite a) NegInf = (if a = 0 then NaN else if 0 < a then NegInf else PosInf)"
| "js_mul PosInf (Finite b) = (if b = 0 then NaN else if 0 < b then PosInf else NegInf)"
| "js_mul NegInf (Finite b) = (if b = 0 then NaN else if 0 < b then NegInf else PosInf)"
| "js_mul PosInf PosInf = PosInf"
| "js_mul PosInf NegInf = NegInf"
| "js_mul NegInf PosInf = NegInf"
| "js_mul NegInf NegInf = PosInf"

text \<open>\<open>a / 100\<close>, the one division of the engine (lines 209 and 226).\<close>

fun js_div_100 :: "jsnum \<Rightarrow> jsnum" where
  "js_div_100 NaN = NaN"
| "js_div_100 PosInf = PosInf"
| "js_div_100 NegInf = NegInf"
| "js_div_100 (Finite a) = roundToDouble (a / 100)"

text \<open>\<open>a > b\<close> and \<open>a <= b\<close>: false when an operand is not-a-number.\<close>

fun js_gt :: "jsnum \<Rightarrow> jsnum \<Rightarrow> bool" where
  "js_gt NaN b = False"
| "js_gt a NaN = False"
| "js_gt (Finite a) (Finite b) = (b < a)"
| "js_gt NegInf b = False"
| "js_gt a PosInf = False"
| "js_gt PosInf b = True"
| "js_gt a NegInf = True"

fun js_le :: "jsnum \<Rightarrow> jsnum \<Rightarrow> bool" where
  "js_le NaN b = False"
| "js_le a NaN = False"
| "js_le (Finite a) (Finite b) = (a \<le> b)"
| "js_le NegInf b = True"
| "js_le a PosInf = True"
| "js_le PosInf b = False"
| "js_le a NegInf = False"

text \<open>The value of \<open>1 - matchingThreshold / 100\<close> (lines 209 and 226).\<close>

definition scoreCeiling :: "jsnum \<Rightarrow> jsnum" where
  "scoreCeiling matchingThreshold = js_sub (Finite 1) (js_div_100 matchingThreshold)"

section \<open>Values, records and the object store\<close>

text \<open>
  The engine (\<open>reconciliationUtils\<close>) works on \<open>Array<Record<string, any>>\<close>. A cell value
  is a JavaScript value; \<open>JObject s\<close> stands for any other object (a date cell, say) whose
  string form is \<open>s\<close>. Line numbers are those of the source file of
  \<open>performReconciliation\<close> and \<open>suggestColumnMappings\<close>.
\<close>

datatype jsval = JUndefined | JNull | JBool bool | JNum jsnum | JStr string | JObject string

text \<open>
  A record object keeps its own properties in insertion order. The two datasets are arrays
  of references to such objects: \<open>indexOf\<close> compares references, so the objects live in a
  store and the arrays hold addresses.
\<close>

type_synonym jsrecord = "(string \<times> jsval) list"
type_synonym ref = nat
type_synonym heap = "ref \<Rightarrow> jsrecord"

text \<open>Property read \<open>entry[name]\<close>: \<open>undefined\<close> when the property is absent.\<close>

definition getField :: "jsrecord \<Rightarrow> string \<Rightarrow> jsval" where
  "getField entry name = (case map_of entry name of None \<Rightarrow> JUndefined | Some v \<Rightarrow> v)"

text \<open>
  \<open>String(v)\<close>. The decimal rendering of a number is the language's own
  \<open>Number.prototype.toString\<close>; it is taken as the parameter \<open>nts\<close>.
\<close>

fun String_js :: "(jsnum \<Rightarrow> string) \<Rightarrow> jsval \<Rightarrow> string" where
  "String_js nts JUndefined = ''undefined''"
| "String_js nts JNull = ''null''"
| "String_js nts (JBool b) = (if b then ''true'' else ''false'')"
| "String_js nts (JNum x) = nts x"
| "String_js nts (JStr s) = s"
| "String_js nts (JObject s) = s"

text \<open>\<open>v?.toString() || ''\<close>: the empty string for \<open>undefined\<close> and \<open>null\<close>.\<close>

fun toStringOrEmpty :: "(jsnum \<Rightarrow> string) \<Rightarrow> jsval \<Rightarrow> string" where
  "toStringOrEmpty nts JUndefined = []"
| "toStringOrEmpty nts JNull = []"
| "toStringOrEmpty nts v = String_js nts v"

text \<open>\<open>Array.prototype.indexOf\<close>: the first position holding the element, or \<open>-1\<close>.\<close>

fun indexOf :: "'a list \<Rightarrow> 'a \<Rightarrow> int" where
  "indexOf [] x = - 1"
| "indexOf (y # ys) x =
     (if y = x then 0 else (let i = indexOf ys x in if i < 0 then - 1 else i + 1))"

section \<open>The fuzzy search library\<close>

text \<open>
  Fuse.js is an external library. The engine constructs one index per run,
  \<open>new Fuse(purchaseRegisterData, fuseOptions)\<close>, and calls \<open>search\<close> on it once per
  GSTR-2B entry. The library is a parameter of the model: a function from the store, the
  indexed array, the options and the search pattern to the result list, best result first.
  Of a result the engine reads \<open>item\<close> and \<open>score\<close>.
\<close>

record FuseOptions =
  includeScore :: bool
  threshold :: jsnum
  keys :: "string list"

record FuseResult =
  item :: ref
  score :: "jsnum option"

type_synonym Fuse =
  "heap \<Rightarrow> ref list \<Rightarrow> FuseOptions \<Rightarrow> (string \<times> string) list \<Rightarrow> FuseResult list"

section \<open>performReconciliation\<close>

record ReconciliationOptions =
  matchingThreshold :: jsnum
  keyFields :: "string list"
  mappedFields :: "(string \<times> string) list"

record Mismatch =
  field :: string
  gstr2bValue :: jsval
  purchaseRegisterValue :: jsval

record MatchedPair =
  gstr2b :: ref
  purchaseRegister :: ref
  mismatches :: "Mismatch list"

record MatchResult =
  common :: "MatchedPair list"
  moreInGstr2b :: "ref list"
  lessInGstr2b :: "ref list"

text \<open>The options handed to the Fuse constructor (lines 207-211).\<close>

definition fuseOptions :: "ReconciliationOptions \<Rightarrow> FuseOptions" where
  "fuseOptions options =
     \<lparr> includeScore = True,
       threshold = scoreCeiling (matchingThreshold options),
       keys = map (\<lambda>field. field) (keyFields options) \<rparr>"

text \<open>
  The search pattern of one GSTR-2B entry (lines 218-221): an object that receives one
  property per key field, in the order of \<open>keyFields\<close>.
\<close>

definition searchPattern ::
  "(jsnum \<Rightarrow> string) \<Rightarrow> string list \<Rightarrow> jsrecord \<Rightarrow> (string \<times> string) list" where
  "searchPattern nts kfs gstr2bEntry =
     fold (\<lambda>keyField sp. AList.update keyField (toStringOrEmpty nts (getField gstr2bEntry keyField)) sp)
       kfs []"

text \<open>
  The body of the loop over \<open>Object.entries(mappedFields)\<close> (lines 237-266); \<open>ms\<close> is the
  array \<open>mismatches\<close>, to which a mismatch is pushed.
\<close>

definition compareField ::
  "(jsnum \<Rightarrow> string) \<Rightarrow> string list \<Rightarrow> jsrecord \<Rightarrow> jsrecord \<Rightarrow> string \<times> string
     \<Rightarrow> Mismatch list \<Rightarrow> Mismatch list" where
  "compareField nts kfs gstr2bEntry bestMatch entry ms =
     (case entry of (gstr2bField, prField) \<Rightarrow>
        if gstr2bField \<in> set kfs then ms
        else
          (let gv = getField gstr2bEntry gstr2bField;
               pv = getField bestMatch prField;
               pushed = ms @ [\<lparr> field = gstr2bField, gstr2bValue = gv, purchaseRegisterValue = pv \<rparr>]
           in case gv of
                JNum g \<Rightarrow>
                  (case pv of
                     JNum p \<Rightarrow>
                       (let tolerance = js_mul (Math_abs g) (roundToDouble 0.001)
                        in if js_gt (Math_abs (js_sub g p)) tolerance then pushed else ms)
                   | _ \<Rightarrow> if String_js nts gv \<noteq> String_js nts pv then pushed else ms)
              | _ \<Rightarrow> if String_js nts gv \<noteq> String_js nts pv then pushed else ms))"

definition findMismatches ::
  "(jsnum \<Rightarrow> string) \<Rightarrow> ReconciliationOptions \<Rightarrow> jsrecord \<Rightarrow> jsrecord \<Rightarrow> Mismatch list" where
  "findMismatches nts options gstr2bEntry bestMatch =
     fold (compareField nts (keyFields options) gstr2bEntry bestMatch) (mappedFields options) []"

text \<open>
  The mutable containers of a run: the arrays \<open>common\<close> and \<open>moreInGstr2b\<close> and the set
  \<open>matchedPurchaseIndices\<close>.
\<close>

record RunState =
  st_common :: "MatchedPair list"
  st_moreInGstr2b :: "ref list"
  matchedPurchaseIndices :: "int set"

text \<open>The value of \<open>results\<close> for one GSTR-2B entry (lines 218-224).\<close>

definition queryResults ::
  "Fuse \<Rightarrow> (jsnum \<Rightarrow> string) \<Rightarrow> heap \<Rightarrow> ref list \<Rightarrow> ReconciliationOptions \<Rightarrow> ref
     \<Rightarrow> FuseResult list" where
  "queryResults fuse nts h purchaseRegisterData options gstr2bEntry =
     fuse h purchaseRegisterData (fuseOptions options)
       (searchPattern nts (keyFields options) (h gstr2bEntry))"

text \<open>The body of \<open>gstr2bData.forEach\<close> (lines 216-280).\<close>

definition processEntry ::
  "Fuse \<Rightarrow> (jsnum \<Rightarrow> string) \<Rightarrow> heap \<Rightarrow> ref list \<Rightarrow> ReconciliationOptions
     \<Rightarrow> ref \<Rightarrow> RunState \<Rightarrow> RunState" where
  "processEntry fuse nts h purchaseRegisterData options gstr2bEntry st =
     (let results = queryResults fuse nts h purchaseRegisterData options gstr2bEntry;
          noMatch = st\<lparr> st_moreInGstr2b := st_moreInGstr2b st @ [gstr2bEntry] \<rparr>
      in case results of
           [] \<Rightarrow> noMatch
         | r0 # _ \<Rightarrow>
             (case score r0 of
                None \<Rightarrow> noMatch
              | Some s \<Rightarrow>
                  if js_le s (scoreCeiling (matchingThreshold options)) then
                    (let bestMatch = item r0;
                         bestMatchIndex = indexOf purchaseRegisterData bestMatch;
                         ms = findMismatches nts options (h gstr2bEntry) (h bestMatch)
                     in st\<lparr> st_common := st_common st @
                               [\<lparr> gstr2b = gstr2bEntry, purchaseRegister = bestMatch, mismatches = ms \<rparr>],
                            matchedPurchaseIndices := insert bestMatchIndex (matchedPurchaseIndices st) \<rparr>)
                  else noMatch))"

text \<open>The body of \<open>purchaseRegisterData.forEach\<close> (lines 283-287).\<close>

definition collectUnmatched :: "int set \<Rightarrow> nat \<times> ref \<Rightarrow> ref list \<Rightarrow> ref list" where
  "collectUnmatched matched entry lessAcc =
     (case entry of (index, prEntry) \<Rightarrow>
        if int index \<notin> matched then lessAcc @ [prEntry] else lessAcc)"

definition performReconciliation ::
  "Fuse \<Rightarrow> (jsnum \<Rightarrow> string) \<Rightarrow> heap \<Rightarrow> ref list \<Rightarrow> ref list \<Rightarrow> ReconciliationOptions
     \<Rightarrow> MatchResult" where
  "performReconciliation fuse nts h gstr2bData purchaseRegisterData options =
     (let st = fold (processEntry fuse nts h purchaseRegisterData options) gstr2bData
                 \<lparr> st_common = [], st_moreInGstr2b = [], matchedPurchaseIndices = {} \<rparr>;
          lessAcc = fold (collectUnmatched (matchedPurchaseIndices st))
                   (enumerate 0 purchaseRegisterData) []
      in \<lparr> common = st_common st, moreInGstr2b = st_moreInGstr2b st, lessInGstr2b = lessAcc \<rparr>)"

text \<open>Whether the loop body takes the match branch for an entry (the condition of line 226).\<close>

definition takesMatch ::
  "Fuse \<Rightarrow> (jsnum \<Rightarrow> string) \<Rightarrow> heap \<Rightarrow> ref list \<Rightarrow> ReconciliationOptions \<Rightarrow> ref \<Rightarrow> bool" where
  "takesMatch fuse nts h ps options g =
     (case queryResults fuse nts h ps options g of
        [] \<Rightarrow> False
      | r0 # _ \<Rightarrow>
          (case score r0 of None \<Rightarrow> False
           | Some s \<Rightarrow> js_le s (scoreCeiling (matchingThreshold options))))"

text \<open>The pair pushed for an entry on the match branch (lines 227-273).\<close>

definition pairFor ::
  "Fuse \<Rightarrow> (jsnum \<Rightarrow> string) \<Rightarrow> heap \<Rightarrow> ref list \<Rightarrow> ReconciliationOptions \<Rightarrow> ref \<Rightarrow> MatchedPair" where
  "pairFor fuse nts h ps options g =
     (let bestMatch = item (hd (queryResults fuse nts h ps options g))
      in \<lparr> gstr2b = g, purchaseRegister = bestMatch,
           mismatches = findMismatches nts options (h g) (h bestMatch) \<rparr>)"

text \<open>The set \<open>matchedPurchaseIndices\<close> at the end of the first loop.\<close>

definition matchedIndices ::
  "Fuse \<Rightarrow> (jsnum \<Rightarrow> string) \<Rightarrow> heap \<Rightarrow> ref list \<Rightarrow> ref list \<Rightarrow> ReconciliationOptions \<Rightarrow> int set" where
  "matchedIndices fuse nts h gs ps options =
     (\<lambda>g. indexOf ps (purchaseRegister (pairFor fuse nts h ps options g))) `
       {g \<in> set gs. takesMatch fuse nts h ps options g}"

section \<open>The Reconcile button\<close>

text \<open>
  \<open>ReconciliationOptions.tsx\<close>, line 72: the value of the button's \<open>disabled\<close> attribute,
  \<open>isDisabled || keyFields.length === 0\<close>.
\<close>

definition reconcileDisabled :: "bool \<Rightarrow> string list \<Rightarrow> bool" where
  "reconcileDisabled isDisabled kfs = (isDisabled \<or> length kfs = 0)"

section \<open>suggestColumnMappings\<close>

record KeywordSet =
  gstr :: "string list"
  pr :: "string list"

definition commonKeywords :: "KeywordSet list" where
  "commonKeywords =
     [ \<lparr> gstr = [''gstin'', ''gst''], pr = [''gstin'', ''gst''] \<rparr>,
       \<lparr> gstr = [''invoice'', ''bill''], pr = [''invoice'', ''bill''] \<rparr>,
       \<lparr> gstr = [''date''], pr = [''date''] \<rparr>,
       \<lparr> gstr = [''taxable'', ''value''], pr = [''taxable'', ''value''] \<rparr>,
       \<lparr> gstr = [''amount'', ''total''], pr = [''amount'', ''total''] \<rparr>,
       \<lparr> gstr = [''igst''], pr = [''igst''] \<rparr>,
       \<lparr> gstr = [''cgst''], pr = [''cgst''] \<rparr>,
       \<lparr> gstr = [''sgst''], pr = [''sgst''] \<rparr>,
       \<lparr> gstr = [''supplier'', ''vendor''], pr = [''supplier'', ''vendor''] \<rparr>,
       \<lparr> gstr = [''party''], pr = [''party''] \<rparr> ]"

text \<open>
  \<open>toLowerCase\<close> on the letters A to Z; every other character is left as it is.
\<close>

definition lowerChar :: "char \<Rightarrow> char" where
  "lowerChar c =
     (case map_of (zip ''ABCDEFGHIJKLMNOPQRSTUVWXYZ'' ''abcdefghijklmnopqrstuvwxyz'') c of
        None \<Rightarrow> c
      | Some l \<Rightarrow> l)"

definition toLowerCase :: "string \<Rightarrow> string" where
  "toLowerCase s = map lowerChar s"

text \<open>\<open>s.includes(k)\<close>: \<open>k\<close> occurs in \<open>s\<close> as a contiguous run.\<close>

fun includes_js :: "string \<Rightarrow> string \<Rightarrow> bool" where
  "includes_js [] k = (k = [])"
| "includes_js (c # s) k = (prefix k (c # s) \<or> includes_js s k)"

text \<open>\<open>keywords.some(keyword => lowerHeader.includes(keyword.toLowerCase()))\<close>.\<close>

definition headerHasKeyword :: "string list \<Rightarrow> string \<Rightarrow> bool" where
  "headerHasKeyword keywords lowerHeader =
     list_ex (\<lambda>keyword. includes_js lowerHeader (toLowerCase keyword)) keywords"

text \<open>
  The \<open>for ... of commonKeywords\<close> loop for one header (lines 336-356). It returns the
  header to record, if the loop reaches the assignment; \<open>break\<close> ends the recursion.
  \<open>if (matchingPrHeader)\<close> is false for \<open>undefined\<close> and for the empty string.
\<close>

fun scanKeywordSets :: "string list \<Rightarrow> string \<Rightarrow> KeywordSet list \<Rightarrow> string option" where
  "scanKeywordSets purchaseRegisterHeaders lowerHeader [] = None"
| "scanKeywordSets purchaseRegisterHeaders lowerHeader (keywordSet # rest) =
     (let matchesGstr = headerHasKeyword (gstr keywordSet) lowerHeader
      in if matchesGstr then
           (case find (\<lambda>prHeader. let lowerPrHeader = toLowerCase prHeader
                                    in headerHasKeyword (pr keywordSet) lowerPrHeader)
                   purchaseRegisterHeaders of
              None \<Rightarrow> scanKeywordSets purchaseRegisterHeaders lowerHeader rest
            | Some matchingPrHeader \<Rightarrow>
                if matchingPrHeader \<noteq> [] then Some matchingPrHeader
                else scanKeywordSets purchaseRegisterHeaders lowerHeader rest)
         else scanKeywordSets purchaseRegisterHeaders lowerHeader rest)"

text \<open>The body of \<open>gstr2bHeaders.forEach\<close> (lines 332-357).\<close>

definition suggestHeader ::
  "string list \<Rightarrow> string \<Rightarrow> (string \<rightharpoonup> string) \<Rightarrow> (string \<rightharpoonup> string)" where
  "suggestHeader purchaseRegisterHeaders gstrHeader mappings =
     (let lowerHeader = toLowerCase gstrHeader
      in case scanKeywordSets purchaseRegisterHeaders lowerHeader commonKeywords of
           None \<Rightarrow> mappings
         | Some matchingPrHeader \<Rightarrow> mappings(gstrHeader \<mapsto> matchingPrHeader))"

definition suggestColumnMappings :: "string list \<Rightarrow> string list \<Rightarrow> (string \<rightharpoonup> string)" where
  "suggestColumnMappings gstr2bHeaders purchaseRegisterHeaders =
     fold (suggestHeader purchaseRegisterHeaders) gstr2bHeaders Map.empty"

section \<open>The specification's wording\<close>

text \<open>
  The tolerance policy as section 4.4 of the specification words it: for two numbers the
  tolerance is the absolute source value times 0.001, and a mismatch is flagged when the
  absolute difference exceeds it; otherwise both values are stringified and a mismatch
  is flagged when the strings differ. The arithmetic is that of JavaScript numbers.
\<close>

definition tolerancePolicy :: "(jsnum \<Rightarrow> string) \<Rightarrow> jsval \<Rightarrow> jsval \<Rightarrow> bool" where
  "tolerancePolicy nts sourceValue targetValue =
     (case (sourceValue, targetValue) of
        (JNum s, JNum t) \<Rightarrow>
          (let tol = js_mul (Math_abs s) (roundToDouble 0.001)
           in js_gt (Math_abs (js_sub s t)) tol)
      | _ \<Rightarrow> String_js nts sourceValue \<noteq> String_js nts targetValue)"

text \<open>
  The suggestion rule as section 4.1 words it. A header contains a keyword of a list when,
  ignoring case, the keyword occurs in it.
\<close>

definition containsKeyword :: "string \<Rightarrow> string list \<Rightarrow> bool" where
  "containsKeyword header keywords =
     (\<exists>keyword \<in> set keywords.
        \<exists>before after. toLowerCase header = before @ toLowerCase keyword @ after)"

text \<open>The first target header, in the given order, containing a target keyword of the group.\<close>

definition firstTargetFor :: "KeywordSet \<Rightarrow> string list \<Rightarrow> string option" where
  "firstTargetFor keywordSet targetHeaders =
     find (\<lambda>t. containsKeyword t (pr keywordSet)) targetHeaders"

text \<open>
  The target header suggested for a source header: that of the first group, in declaration
  order, whose source keywords the header contains and for which a target header is found.
\<close>

definition suggestionFor :: "string list \<Rightarrow> string \<Rightarrow> string option" where
  "suggestionFor targetHeaders sourceHeader =
     (case find (\<lambda>keywordSet. containsKeyword sourceHeader (gstr keywordSet)
                    \<and> firstTargetFor keywordSet targetHeaders \<noteq> None) commonKeywords of
        None \<Rightarrow> None
      | Some keywordSet \<Rightarrow> firstTargetFor keywordSet targetHeaders)"

section \<open>A reference index and concrete runs\<close>

text \<open>
  Modelled from the spec: the FuzzyIndex of section 4.2, standing for the Fuse.js library,
  which is not part of the repository. The index is scoped to the configured keys; a query
  gives one pattern string per key. A record is a candidate when it has a value for every
  key of the query; its score lies between 0 and 1, is 0 for an exact match on all keys
  and grows with the share of disagreeing characters; candidates over the threshold are
  dropped and the rest are returned best score first, ties in dataset order. As in Fuse.js,
  a record without a value for a queried key, and a query without keys, give no candidate.
  The share is computed exactly and reported as the nearest double.
\<close>

fun diffCount :: "string \<Rightarrow> string \<Rightarrow> nat" where
  "diffCount [] ys = length ys"
| "diffCount xs [] = length xs"
| "diffCount (x # xs) (y # ys) = (if x = y then 0 else 1) + diffCount xs ys"

definition fieldScore :: "string \<Rightarrow> string \<Rightarrow> real" where
  "fieldScore pat v =
     (if pat = v then 0 else real (diffCount pat v) / real (max (length pat) (length v)))"

fun docScore ::
  "(jsnum \<Rightarrow> string) \<Rightarrow> string list \<Rightarrow> jsrecord \<Rightarrow> (string \<times> string) list \<Rightarrow> real option" where
  "docScore nts ks doc [] = Some 0"
| "docScore nts ks doc ((k, pat) # rest) =
     (if k \<in> set ks then
        (case getField doc k of
           JUndefined \<Rightarrow> None
         | JNull \<Rightarrow> None
         | v \<Rightarrow> (case docScore nts ks doc rest of
                  None \<Rightarrow> None
                | Some s \<Rightarrow> Some (max (fieldScore pat (String_js nts v)) s)))
      else None)"

definition candidate ::
  "(jsnum \<Rightarrow> string) \<Rightarrow> heap \<Rightarrow> FuseOptions \<Rightarrow> (string \<times> string) list \<Rightarrow> ref
     \<Rightarrow> (real \<times> ref) list" where
  "candidate nts h fo pat d =
     (case docScore nts (keys fo) (h d) pat of
        None \<Rightarrow> []
      | Some s \<Rightarrow> if js_le (roundToDouble s) (threshold fo) then [(s, d)] else [])"

definition toResult :: "FuseOptions \<Rightarrow> real \<times> ref \<Rightarrow> FuseResult" where
  "toResult fo c =
     \<lparr> item = snd c, score = (if includeScore fo then Some (roundToDouble (fst c)) else None) \<rparr>"

text \<open>
  Modelled from the spec: the query of the FuzzyIndex (section 4.2), in the place of
  \<open>Fuse.search\<close> of the Fuse.js library, which is not part of the repository.
\<close>

definition referenceFuse :: "(jsnum \<Rightarrow> string) \<Rightarrow> Fuse" where
  "referenceFuse nts h docs fo pat =
     (if pat = [] then []
      else map (toResult fo) (sort_key fst (concat (map (candidate nts h fo pat) docs))))"

text \<open>
  An index that gives one and the same answer to every query, for runs in which the score
  of the first result is what decides.
\<close>

definition fixedAnswer :: "FuseResult list \<Rightarrow> Fuse" where
  "fixedAnswer answer h docs fo pat = answer"

text \<open>
  An index is scoped to its keys when its answer is the same for any two stores that give
  every indexed record the same values for the configured keys.
\<close>

definition keyScoped :: "Fuse \<Rightarrow> bool" where
  "keyScoped fuse =
     (\<forall>h h' docs fo pat.
        (\<forall>d \<in> set docs. \<forall>k \<in> set (keys fo). getField (h d) k = getField (h' d) k)
          \<longrightarrow> fuse h docs fo pat = fuse h' docs fo pat)"

text \<open>
  A number rendering for the concrete runs below, none of which stringifies a number.
\<close>

definition renderNumber :: "jsnum \<Rightarrow> string" where
  "renderNumber x = ''0''"

text \<open>
  The end-to-end scenario of section 8: object 10 is the GSTR-2B entry, object 20 the
  purchase register entry.
\<close>

definition heapE :: heap where
  "heapE = (\<lambda>_. [])
     (10 := [(''invoice'', JStr ''INV-001''), (''gstin'', JStr ''29ABCDE1234F1Z5''),
            (''amount'', JNum (Finite 1000))],
      20 := [(''inv_no'', JStr ''INV-001''), (''gst'', JStr ''29ABCDE1234F1Z5''),
            (''amt'', JNum (Finite 1000.5))])"

definition optionsE :: ReconciliationOptions where
  "optionsE =
     \<lparr> matchingThreshold = Finite 90, keyFields = [''invoice'', ''gstin''],
       mappedFields = [(''invoice'', ''inv_no''), (''gstin'', ''gst''), (''amount'', ''amt'')] \<rparr>"

text \<open>
  The same scenario with the purchase register columns named as the GSTR-2B columns are.
\<close>

definition heapS :: heap where
  "heapS = (\<lambda>_. [])
     (10 := [(''invoice'', JStr ''INV-001''), (''gstin'', JStr ''29ABCDE1234F1Z5''),
            (''amount'', JNum (Finite 1000))],
      20 := [(''invoice'', JStr ''INV-001''), (''gstin'', JStr ''29ABCDE1234F1Z5''),
            (''amount'', JNum (Finite 1000.5))])"

definition optionsS :: ReconciliationOptions where
  "optionsS =
     \<lparr> matchingThreshold = Finite 90, keyFields = [''invoice'', ''gstin''],
       mappedFields = [(''invoice'', ''invoice''), (''gstin'', ''gstin''), (''amount'', ''amount'')] \<rparr>"

text \<open>
  Two GSTR-2B entries (objects 10 and 11) carrying the same invoice number, and one
  purchase register entry (object 20) with that number.
\<close>

definition heapD :: heap where
  "heapD = (\<lambda>_. [])
     (10 := [(''invoice'', JStr ''A1'')],
      11 := [(''invoice'', JStr ''A1'')],
      20 := [(''invoice'', JStr ''A1'')])"

definition optionsD :: ReconciliationOptions where
  "optionsD =
     \<lparr> matchingThreshold = Finite 90, keyFields = [''invoice''],
       mappedFields = [(''invoice'', ''invoice'')] \<rparr>"

text \<open>
  A run with a match that has a value mismatch, an unmatched GSTR-2B entry and an
  unmatched purchase register entry: objects 10 and 11 are the GSTR-2B entries, objects 20
  and 21 the purchase register entries.
\<close>

definition heapW :: heap where
  "heapW = (\<lambda>_. [])
     (10 := [(''invoice'', JStr ''A1''), (''amount'', JNum (Finite 100))],
      11 := [(''invoice'', JStr ''ZZ9''), (''amount'', JNum (Finite 5))],
      20 := [(''invoice'', JStr ''A1''), (''amount'', JNum (roundToDouble 100.11))],
      21 := [(''invoice'', JStr ''B7''), (''amount'', JNum (Finite 1))])"

definition optionsW :: ReconciliationOptions where
  "optionsW =
     \<lparr> matchingThreshold = Finite 90, keyFields = [''invoice''],
       mappedFields = [(''invoice'', ''invoice''), (''amount'', ''amount'')] \<rparr>"

text \<open>The options of the last run with no key field selected.\<close>

definition optionsN :: ReconciliationOptions where
  "optionsN =
     \<lparr> matchingThreshold = Finite 90, keyFields = [],
       mappedFields = [(''invoice'', ''invoice''), (''amount'', ''amount'')] \<rparr>"

text \<open>
  A run over four GSTR-2B entries (objects 10 to 13) and four purchase register entries
  (objects 20 to 23), in which the first and the third entry have a counterpart, the third
  entry's standing before the first entry's in the purchase register.
\<close>

definition heapO :: heap where
  "heapO = (\<lambda>_. [])
     (10 := [(''invoice'', JStr ''A1'')],
      11 := [(''invoice'', JStr ''ZZ9'')],
      12 := [(''invoice'', JStr ''B7'')],
      13 := [(''invoice'', JStr ''QQ8'')],
      20 := [(''invoice'', JStr ''B7'')],
      21 := [(''invoice'', JStr ''XX1'')],
      22 := [(''invoice'', JStr ''A1'')],
      23 := [(''invoice'', JStr ''YY2'')])"

text \<open>Options with the threshold at 95.\<close>

definition optionsT :: ReconciliationOptions where
  "optionsT =
     \<lparr> matchingThreshold = Finite 95, keyFields = [''invoice''],
       mappedFields = [(''invoice'', ''invoice'')] \<rparr>"

section \<open>Rounding\<close>

lemma roundHalfEven_near: "\<bar>q - of_int n\<bar> < 1 / 2 \<Longrightarrow> roundHalfEven q = n"
proof -
  assume a: "\<bar>q - of_int n\<bar> < 1 / 2"
  show ?thesis
  proof (cases "of_int n \<le> q")
    case True
    with a have "\<lfloor>q\<rfloor> = n" by (intro floor_unique) auto
    with a True show ?thesis by (simp add: roundHalfEven_def Let_def)
  next
    case False
    with a have f: "\<lfloor>q\<rfloor> = n - 1" by (intro floor_unique) auto
    with a False have "1 / 2 < q - of_int \<lfloor>q\<rfloor>" by simp
    with f show ?thesis by (simp add: roundHalfEven_def Let_def)
  qed
qed

lemma roundHalfEven_between: "roundHalfEven q = \<lfloor>q\<rfloor> \<or> roundHalfEven q = \<lfloor>q\<rfloor> + 1"
  by (simp add: roundHalfEven_def Let_def)

lemma roundHalfEven_nonzero:
  assumes "1 \<le> \<bar>q\<bar>"
  shows "roundHalfEven q \<noteq> 0"
proof (cases "1 \<le> q")
  case True
  then have "1 \<le> \<lfloor>q\<rfloor>" by (simp add: le_floor_iff)
  with roundHalfEven_between [of q] show ?thesis by arith
next
  case False
  with assms have q: "q \<le> - 1" by linarith
  show ?thesis
  proof (cases "q = - 1")
    case True
    then have "\<lfloor>q\<rfloor> = - 1" by (intro floor_unique) auto
    with True show ?thesis by (simp add: roundHalfEven_def Let_def)
  next
    case False
    with q have "q < - 1" by simp
    then have "\<lfloor>q\<rfloor> < - 1" by (simp add: floor_less_iff)
    with roundHalfEven_between [of q] show ?thesis by arith
  qed
qed

lemma floor_log2_eq:
  fixes x :: real and e :: int
  assumes "2 powi e \<le> x" and "x < 2 powi (e + 1)"
  shows "\<lfloor>log 2 x\<rfloor> = e"
proof -
  have pos: "0 < x" using assms(1) zero_less_power_int [of "2::real" e] by linarith
  have "(2::real) powr real_of_int e = 2 powi e"
    "(2::real) powr (real_of_int e + 1) = 2 powi (e + 1)"
    using powr_real_of_int' [of "2::real" e] powr_real_of_int' [of "2::real" "e + 1"]
    by simp_all
  with assms show ?thesis
    using floor_log_eq_powr_iff [of x 2 e] pos by simp
qed

lemma power_floor_log2_le:
  fixes x :: real
  assumes "0 < x"
  shows "2 powi \<lfloor>log 2 x\<rfloor> \<le> x"
proof -
  have "(2::real) powr real_of_int \<lfloor>log 2 x\<rfloor> \<le> x"
    using floor_log_eq_powr_iff [of x 2 "\<lfloor>log 2 x\<rfloor>"] assms by simp
  then show ?thesis
    using powr_real_of_int' [of "2::real" "\<lfloor>log 2 x\<rfloor>"] by simp
qed

text \<open>
  How a rounding is computed: for \<open>x\<close> with \<open>2 ^ 52 \<le> \<bar>x\<bar> * 2 ^ j < 2 ^ 53\<close> the unit in the
  last place is \<open>1 / 2 ^ j\<close>, and the result is \<open>n / 2 ^ j\<close> for the integer \<open>n\<close> within a half
  of \<open>x * 2 ^ j\<close>.
\<close>

lemma roundToDouble_eqI:
  fixes x :: real and n :: int and j :: nat
  assumes lo: "2 ^ 52 \<le> \<bar>x\<bar> * 2 ^ j" and hi: "\<bar>x\<bar> * 2 ^ j < 2 ^ 53"
    and near: "\<bar>x * 2 ^ j - of_int n\<bar> < 1 / 2" and j: "j \<le> 1074"
  shows "roundToDouble x = Finite (of_int n / 2 ^ j)"
proof -
  have x0: "x \<noteq> 0" using lo by auto
  have p: "(2::real) powi (52 - int j) = 2 ^ 52 / 2 ^ j"
    "(2::real) powi (52 - int j + 1) = 2 ^ 53 / 2 ^ j"
    by (simp_all add: power_int_diff power_int_add)
  have a: "2 powi (52 - int j) \<le> \<bar>x\<bar>"
    unfolding p(1) using lo by (simp add: field_simps)
  have b: "\<bar>x\<bar> < 2 powi (52 - int j + 1)"
    unfolding p(2) using hi by (simp add: field_simps)
  have "\<lfloor>log 2 \<bar>x\<bar>\<rfloor> = 52 - int j"
    using a b by (rule floor_log2_eq)
  with j have ue: "ulpExponent x = - int j" by (simp add: ulpExponent_def)
  have u: "(2::real) powi ulpExponent x = 1 / 2 ^ j"
    by (simp add: ue power_int_minus field_simps)
  have r: "roundHalfEven (x * 2 ^ j) = n"
    using near by (rule roundHalfEven_near)
  have "\<bar>of_int n\<bar> \<le> \<bar>x * 2 ^ j\<bar> + 1" using near by linarith
  also have "\<dots> = \<bar>x\<bar> * 2 ^ j + 1" by (simp add: abs_mult)
  also have "\<dots> < 2 ^ 53 + 1" using hi by simp
  finally have nb: "\<bar>real_of_int n\<bar> < 2 ^ 53 + 1" .
  have "(1::real) \<le> 2 ^ j" by simp
  then have "\<bar>real_of_int n\<bar> * 1 \<le> \<bar>real_of_int n\<bar> * 2 ^ j"
    by (intro mult_left_mono) simp_all
  then have "\<bar>real_of_int n * (1 / 2 ^ j)\<bar> \<le> \<bar>real_of_int n\<bar>"
    by (simp add: abs_mult field_simps)
  also have "\<dots> < 2 ^ 53 + 1" by (rule nb)
  also have "\<dots> < (2::real) ^ 1024"
  proof -
    have "(2::real) ^ 53 + 1 < 2 ^ 54" by simp
    also have "\<dots> \<le> (2::real) ^ 1024" by (rule power_increasing) simp_all
    finally show ?thesis .
  qed
  finally have small: "\<not> (2::real) ^ 1024 \<le> \<bar>real_of_int n * (1 / 2 ^ j)\<bar>"
    by (simp only: not_le)
  show ?thesis
    using x0 small by (simp add: roundToDouble_def u r Let_def del: power_int_numeral)
qed

lemma roundToDouble_not_NaN: "roundToDouble x \<noteq> NaN"
  by (simp add: roundToDouble_def Let_def)

lemma ulp_le:
  assumes "2 powi (- 1074) \<le> \<bar>x\<bar>"
  shows "2 powi ulpExponent x \<le> \<bar>x\<bar>"
proof (cases "- 1022 \<le> \<lfloor>log 2 \<bar>x\<bar>\<rfloor>")
  case True
  have pos: "0 < \<bar>x\<bar>"
    using assms zero_less_power_int [of "2::real" "- 1074"] by linarith
  from True have "ulpExponent x \<le> \<lfloor>log 2 \<bar>x\<bar>\<rfloor>" by (simp add: ulpExponent_def)
  then have "(2::real) powi ulpExponent x \<le> 2 powi \<lfloor>log 2 \<bar>x\<bar>\<rfloor>"
    by (intro power_int_increasing) simp_all
  also have "\<dots> \<le> \<bar>x\<bar>" using pos by (rule power_floor_log2_le)
  finally show ?thesis .
next
  case False
  then have "ulpExponent x = - 1074" by (simp add: ulpExponent_def)
  with assms show ?thesis by simp
qed

text \<open>A real of at least the magnitude of the least positive double does not round to zero.\<close>

lemma roundToDouble_nonzero:
  assumes "2 powi (- 1074) \<le> \<bar>x\<bar>"
  shows "roundToDouble x \<noteq> Finite 0"
proof -
  let ?u = "(2::real) powi ulpExponent x"
  have upos: "0 < ?u" by simp
  have x0: "x \<noteq> 0"
    using assms zero_less_power_int [of "2::real" "- 1074"] by auto
  from ulp_le [OF assms] upos have "1 \<le> \<bar>x\<bar> / ?u" by (simp add: field_simps)
  then have "1 \<le> \<bar>x / ?u\<bar>" by (simp add: abs_divide)
  then have "roundHalfEven (x / ?u) \<noteq> 0" by (rule roundHalfEven_nonzero)
  with upos have "of_int (roundHalfEven (x / ?u)) * ?u \<noteq> 0" by simp
  with x0 show ?thesis by (simp add: roundToDouble_def Let_def del: power_int_numeral)
qed

text \<open>A non-zero result of a rounding has at least the magnitude of the least positive double.\<close>

lemma roundToDouble_Finite_ge:
  assumes "roundToDouble y = Finite r" and "r \<noteq> 0"
  shows "2 powi (- 1074) \<le> \<bar>r\<bar>"
proof -
  let ?u = "(2::real) powi ulpExponent y"
  let ?n = "roundHalfEven (y / ?u)"
  from assms have y0: "y \<noteq> 0" by (auto simp: roundToDouble_def)
  with assms(1) have r: "r = of_int ?n * ?u"
    by (simp add: roundToDouble_def Let_def split: if_splits del: power_int_numeral)
  with assms(2) have "?n \<noteq> 0" by auto
  then have "1 \<le> \<bar>real_of_int ?n\<bar>" by linarith
  then have "1 * ?u \<le> \<bar>real_of_int ?n\<bar> * ?u" by (intro mult_right_mono) simp_all
  then have "?u \<le> \<bar>r\<bar>" by (simp add: r abs_mult)
  moreover have "(2::real) powi (- 1074) \<le> ?u"
    by (intro power_int_increasing) (simp_all add: ulpExponent_def)
  ultimately show ?thesis by linarith
qed

text \<open>Zero against a double that is not zero: the absolute difference exceeds zero.\<close>

lemma zero_against_nonzero:
  assumes "roundToDouble y \<noteq> Finite 0"
  shows "js_gt (Math_abs (js_sub (Finite 0) (roundToDouble y))) (Finite 0)"
proof (cases "roundToDouble y")
  case NaN
  with roundToDouble_not_NaN [of y] show ?thesis by simp
next
  case PosInf
  then show ?thesis by simp
next
  case NegInf
  then show ?thesis by simp
next
  case (Finite r)
  with assms have r0: "r \<noteq> 0" by simp
  from roundToDouble_Finite_ge [OF Finite r0] have "2 powi (- 1074) \<le> \<bar>- r\<bar>" by simp
  then have nz: "roundToDouble (- r) \<noteq> Finite 0" by (rule roundToDouble_nonzero)
  have "js_gt (Math_abs (roundToDouble (- r))) (Finite 0)"
  proof (cases "roundToDouble (- r)")
    case NaN
    with roundToDouble_not_NaN [of "- r"] show ?thesis by simp
  next
    case PosInf
    then show ?thesis by simp
  next
    case NegInf
    then show ?thesis by simp
  next
    case (Finite r')
    with nz show ?thesis by simp
  qed
  with Finite show ?thesis by simp
qed

section \<open>Values of literals and operations\<close>

lemma lit_0_001_raw: "roundToDouble 0.001 = Finite (4611686018427388 / 2 ^ 62)"
  using roundToDouble_eqI [where x = "0.001" and n = 4611686018427388 and j = 62] by simp

lemmas lit_0_001 = lit_0_001_raw [simplified]

lemma lit_100_09_raw: "roundToDouble 100.09 = Finite (7043207604742390 / 2 ^ 46)"
  using roundToDouble_eqI [where x = "100.09" and n = 7043207604742390 and j = 46] by simp

lemmas lit_100_09 = lit_100_09_raw [simplified]

lemma lit_100_11_raw: "roundToDouble 100.11 = Finite (7044614979625943 / 2 ^ 46)"
  using roundToDouble_eqI [where x = "100.11" and n = 7044614979625943 and j = 46] by simp

lemmas lit_100_11 = lit_100_11_raw [simplified]

lemma diff_100_09_raw:
  "roundToDouble (100 - 7043207604742390 / 2 ^ 46) = Finite (- 6485183463413760 / 2 ^ 56)"
  using roundToDouble_eqI [where x = "100 - 7043207604742390 / 2 ^ 46"
      and n = "- 6485183463413760" and j = 56] by simp

lemmas diff_100_09 = diff_100_09_raw [simplified]

lemma diff_100_11_raw:
  "roundToDouble (100 - 7044614979625943 / 2 ^ 46) = Finite (- 7926335344172032 / 2 ^ 56)"
  using roundToDouble_eqI [where x = "100 - 7044614979625943 / 2 ^ 46"
      and n = "- 7926335344172032" and j = 56] by simp

lemmas diff_100_11 = diff_100_11_raw [simplified]

lemma tol_100_raw:
  "roundToDouble (100 * (4611686018427388 / 2 ^ 62)) = Finite (7205759403792794 / 2 ^ 56)"
  using roundToDouble_eqI [where x = "100 * (4611686018427388 / 2 ^ 62)"
      and n = 7205759403792794 and j = 56] by simp

lemmas tol_100 = tol_100_raw [simplified]

lemma tol_1000_raw:
  "roundToDouble (1000 * (4611686018427388 / 2 ^ 62)) = Finite (4503599627370496 / 2 ^ 52)"
  using roundToDouble_eqI [where x = "1000 * (4611686018427388 / 2 ^ 62)"
      and n = 4503599627370496 and j = 52] by simp

lemmas tol_1000 = tol_1000_raw [simplified]

lemma round_half_raw: "roundToDouble (- (1 / 2)) = Finite (- 4503599627370496 / 2 ^ 53)"
  using roundToDouble_eqI [where x = "- (1 / 2)" and n = "- 4503599627370496" and j = 53]
  by simp

lemmas round_half = round_half_raw [simplified]

lemma round_one_raw: "roundToDouble 1 = Finite (4503599627370496 / 2 ^ 52)"
  using roundToDouble_eqI [where x = 1 and n = 4503599627370496 and j = 52] by simp

lemmas round_one = round_one_raw [simplified]

lemma div_90_raw: "roundToDouble (90 / 100) = Finite (8106479329266893 / 2 ^ 53)"
  using roundToDouble_eqI [where x = "90 / 100" and n = 8106479329266893 and j = 53] by simp

lemmas div_90 = div_90_raw [simplified]

lemma sub_90_raw:
  "roundToDouble (1 - 8106479329266893 / 2 ^ 53) = Finite (7205759403792792 / 2 ^ 56)"
  using roundToDouble_eqI [where x = "1 - 8106479329266893 / 2 ^ 53"
      and n = 7205759403792792 and j = 56] by simp

lemmas sub_90 = sub_90_raw [simplified]

lemma div_95_raw: "roundToDouble (95 / 100) = Finite (8556839292003942 / 2 ^ 53)"
  using roundToDouble_eqI [where x = "95 / 100" and n = 8556839292003942 and j = 53] by simp

lemmas div_95 = div_95_raw [simplified]

lemma sub_95_raw:
  "roundToDouble (1 - 8556839292003942 / 2 ^ 53) = Finite (7205759403792800 / 2 ^ 57)"
  using roundToDouble_eqI [where x = "1 - 8556839292003942 / 2 ^ 53"
      and n = 7205759403792800 and j = 57] by simp

lemmas sub_95 = sub_95_raw [simplified]

lemma lit_0_05_raw: "roundToDouble 0.05 = Finite (7205759403792794 / 2 ^ 57)"
  using roundToDouble_eqI [where x = "0.05" and n = 7205759403792794 and j = 57] by simp

lemmas lit_0_05 = lit_0_05_raw [simplified]

lemma lit_0_01_raw: "roundToDouble 0.01 = Finite (5764607523034235 / 2 ^ 59)"
  using roundToDouble_eqI [where x = "0.01" and n = 5764607523034235 and j = 59] by simp

lemmas lit_0_01 = lit_0_01_raw [simplified]

text \<open>The score ceilings at the thresholds 90 and 95.\<close>

lemma scoreCeiling_90: "scoreCeiling (Finite 90) = Finite (7205759403792792 / 2 ^ 56)"
  by (simp add: scoreCeiling_def div_90 sub_90)

lemma scoreCeiling_95: "scoreCeiling (Finite 95) = Finite (7205759403792800 / 2 ^ 57)"
  by (simp add: scoreCeiling_def div_95 sub_95)

section \<open>Shape of a run\<close>

lemma processEntry_match:
  "takesMatch fuse nts h ps options g \<Longrightarrow>
   processEntry fuse nts h ps options g st =
     st\<lparr> st_common := st_common st @ [pairFor fuse nts h ps options g],
        matchedPurchaseIndices :=
          insert (indexOf ps (purchaseRegister (pairFor fuse nts h ps options g)))
            (matchedPurchaseIndices st) \<rparr>"
  by (auto simp: takesMatch_def processEntry_def pairFor_def Let_def
           split: list.splits option.splits)

lemma processEntry_noMatch:
  "\<not> takesMatch fuse nts h ps options g \<Longrightarrow>
   processEntry fuse nts h ps options g st =
     st\<lparr> st_moreInGstr2b := st_moreInGstr2b st @ [g] \<rparr>"
  by (auto simp: takesMatch_def processEntry_def Let_def split: list.splits option.splits)

lemma fold_processEntry:
  "fold (processEntry fuse nts h ps options) gs st =
     st\<lparr> st_common := st_common st @
            map (pairFor fuse nts h ps options) (filter (takesMatch fuse nts h ps options) gs),
        st_moreInGstr2b := st_moreInGstr2b st @
            filter (\<lambda>g. \<not> takesMatch fuse nts h ps options g) gs,
        matchedPurchaseIndices := matchedPurchaseIndices st \<union>
            (\<lambda>g. indexOf ps (purchaseRegister (pairFor fuse nts h ps options g))) `
              {g \<in> set gs. takesMatch fuse nts h ps options g} \<rparr>"
proof (induction gs arbitrary: st)
  case Nil
  show ?case by simp
next
  case (Cons g gs)
  show ?case
  proof (cases "takesMatch fuse nts h ps options g")
    case True
    then show ?thesis
      by (simp add: Cons.IH processEntry_match) (rule RunState.equality; auto)
  next
    case False
    then show ?thesis
      by (simp add: Cons.IH processEntry_noMatch) (rule RunState.equality; auto)
  qed
qed

lemma fold_collectUnmatched:
  "fold (collectUnmatched M) xs acc =
     acc @ map snd (filter (\<lambda>e. int (fst e) \<notin> M) xs)"
  by (induction xs arbitrary: acc) (auto simp: collectUnmatched_def)

lemma performReconciliation_shape:
  "performReconciliation fuse nts h gs ps options =
     \<lparr> common = map (pairFor fuse nts h ps options) (filter (takesMatch fuse nts h ps options) gs),
       moreInGstr2b = filter (\<lambda>g. \<not> takesMatch fuse nts h ps options g) gs,
       lessInGstr2b = map snd (filter (\<lambda>e. int (fst e) \<notin> matchedIndices fuse nts h gs ps options)
                                 (enumerate 0 ps)) \<rparr>"
  by (simp add: performReconciliation_def fold_processEntry fold_collectUnmatched
        matchedIndices_def Let_def)

lemma gstr2b_pairFor [simp]: "gstr2b (pairFor fuse nts h ps options g) = g"
  by (simp add: pairFor_def Let_def)

lemma common_sources:
  "map gstr2b (common (performReconciliation fuse nts h gs ps options)) =
     filter (takesMatch fuse nts h ps options) gs"
  by (simp add: performReconciliation_shape comp_def)

lemma moreInGstr2b_eq:
  "moreInGstr2b (performReconciliation fuse nts h gs ps options) =
     filter (\<lambda>g. \<not> takesMatch fuse nts h ps options g) gs"
  by (simp add: performReconciliation_shape)

lemma subseq_map_snd_filter_enumerate:
  "subseq (map snd (filter P (enumerate n xs))) xs"
proof (induction xs arbitrary: n)
  case Nil
  show ?case by simp
next
  case (Cons x xs)
  show ?case
    by (cases "P (n, x)") (simp_all add: Cons.IH list_emb_Cons)
qed

lemma common_pairs:
  "p \<in> set (common (performReconciliation fuse nts h gs ps options)) \<Longrightarrow>
   \<exists>g \<in> set gs. takesMatch fuse nts h ps options g \<and> p = pairFor fuse nts h ps options g"
  by (auto simp: performReconciliation_shape)

lemma mismatches_pairFor:
  "mismatches (pairFor fuse nts h ps options g) =
     findMismatches nts options (h g) (h (purchaseRegister (pairFor fuse nts h ps options g)))"
  by (simp add: pairFor_def Let_def)

lemma takesMatch_iff:
  "takesMatch fuse nts h ps options g \<longleftrightarrow>
     queryResults fuse nts h ps options g \<noteq> [] \<and>
     (\<exists>s. score (hd (queryResults fuse nts h ps options g)) = Some s \<and>
          js_le s (js_sub (Finite 1) (js_div_100 (matchingThreshold options))))"
  by (auto simp: takesMatch_def scoreCeiling_def split: list.splits option.splits)

lemma unmatched_nths:
  "map snd (filter (\<lambda>e. int (fst e) \<notin> M) (enumerate 0 ps)) = nths ps {i. int i \<notin> M}"
proof -
  have "enumerate 0 ps = map (\<lambda>(p, i). (i, p)) (zip ps [0..<length ps])"
    by (simp add: enumerate_eq_zip zip_commute [of "[0..<length ps]" ps])
  then show ?thesis
    by (simp add: nths_def filter_map comp_def case_prod_unfold)
qed

lemma matchedIndices_common:
  "matchedIndices fuse nts h gs ps options =
     (\<lambda>p. indexOf ps (purchaseRegister p)) `
       set (common (performReconciliation fuse nts h gs ps options))"
  by (auto simp: matchedIndices_def performReconciliation_shape)

lemma lessInGstr2b_eq:
  "lessInGstr2b (performReconciliation fuse nts h gs ps options) =
     nths ps {i. int i \<notin> (\<lambda>p. indexOf ps (purchaseRegister p)) `
                 set (common (performReconciliation fuse nts h gs ps options))}"
proof -
  have "lessInGstr2b (performReconciliation fuse nts h gs ps options) =
      nths ps {i. int i \<notin> matchedIndices fuse nts h gs ps options}"
    by (simp add: performReconciliation_shape unmatched_nths)
  then show ?thesis by (simp only: matchedIndices_common)
qed

section \<open>The mismatch loop\<close>

lemma compareField_eq:
  "compareField nts kfs g b (gf, pf) ms =
     ms @ (if gf \<notin> set kfs \<and> tolerancePolicy nts (getField g gf) (getField b pf)
           then [\<lparr> field = gf, gstr2bValue = getField g gf, purchaseRegisterValue = getField b pf \<rparr>]
           else [])"
  by (simp add: compareField_def tolerancePolicy_def Let_def split: jsval.splits)

lemma fold_compareField:
  "fold (compareField nts kfs g b) mf ms =
     ms @ [\<lparr> field = gf, gstr2bValue = getField g gf, purchaseRegisterValue = getField b pf \<rparr>.
             (gf, pf) \<leftarrow> mf, gf \<notin> set kfs, tolerancePolicy nts (getField g gf) (getField b pf)]"
proof (induction mf arbitrary: ms)
  case Nil
  show ?case by simp
next
  case (Cons e mf)
  obtain gf pf where e: "e = (gf, pf)" by (cases e)
  show ?case by (simp add: e Cons.IH compareField_eq)
qed

lemma findMismatches_eq:
  "findMismatches nts options g b =
     [\<lparr> field = gf, gstr2bValue = getField g gf, purchaseRegisterValue = getField b pf \<rparr>.
        (gf, pf) \<leftarrow> mappedFields options, gf \<notin> set (keyFields options),
        tolerancePolicy nts (getField g gf) (getField b pf)]"
  by (simp add: findMismatches_def fold_compareField)

lemma findMismatches_no_key:
  "m \<in> set (findMismatches nts options g b) \<Longrightarrow> field m \<notin> set (keyFields options)"
  by (auto simp: findMismatches_eq split: if_splits)

section \<open>Runs of the reference index\<close>

lemma round_zero: "roundToDouble 0 = Finite 0"
  by (simp add: roundToDouble_def)

lemma optionsW_fields:
  "matchingThreshold optionsW = Finite 90"
  "keyFields optionsW = [''invoice'']"
  "mappedFields optionsW = [(''invoice'', ''invoice''), (''amount'', ''amount'')]"
  by (simp_all add: optionsW_def)

lemma heapW_objects:
  "heapW 10 = [(''invoice'', JStr ''A1''), (''amount'', JNum (Finite 100))]"
  "heapW 11 = [(''invoice'', JStr ''ZZ9''), (''amount'', JNum (Finite 5))]"
  "heapW 20 = [(''invoice'', JStr ''A1''), (''amount'', JNum (roundToDouble 100.11))]"
  "heapW 21 = [(''invoice'', JStr ''B7''), (''amount'', JNum (Finite 1))]"
  by (simp_all add: heapW_def)

lemma queryResults_W0:
  "queryResults (referenceFuse renderNumber) renderNumber heapW [20, 21] optionsW 10 =
     [\<lparr> item = 20, score = Some (Finite 0) \<rparr>]"
  by (simp add: queryResults_def searchPattern_def fuseOptions_def referenceFuse_def
        candidate_def toResult_def fieldScore_def optionsW_fields heapW_objects getField_def
        scoreCeiling_90 round_zero round_one)

lemma queryResults_W1:
  "queryResults (referenceFuse renderNumber) renderNumber heapW [20, 21] optionsW 11 = []"
  by (simp add: queryResults_def searchPattern_def fuseOptions_def referenceFuse_def
        candidate_def toResult_def fieldScore_def optionsW_fields heapW_objects getField_def
        scoreCeiling_90 round_zero round_one)

lemma run_W:
  "performReconciliation (referenceFuse renderNumber) renderNumber heapW [10, 11] [20, 21] optionsW =
     \<lparr> common = [\<lparr> gstr2b = 10, purchaseRegister = 20,
                    mismatches = [\<lparr> field = ''amount'', gstr2bValue = JNum (Finite 100),
                                    purchaseRegisterValue = JNum (roundToDouble 100.11) \<rparr>] \<rparr>],
       moreInGstr2b = [11],
       lessInGstr2b = [21] \<rparr>"
  by (simp add: performReconciliation_def processEntry_def queryResults_W0 queryResults_W1
        findMismatches_def compareField_def collectUnmatched_def optionsW_fields heapW_objects
        getField_def Let_def scoreCeiling_90 lit_0_001 lit_100_11 diff_100_11 tol_100)

lemma run_S:
  "performReconciliation (referenceFuse renderNumber) renderNumber heapS [10] [20] optionsS =
     \<lparr> common = [\<lparr> gstr2b = 10, purchaseRegister = 20, mismatches = [] \<rparr>],
       moreInGstr2b = [],
       lessInGstr2b = [] \<rparr>"
  by (simp add: performReconciliation_def processEntry_def queryResults_def searchPattern_def
        fuseOptions_def referenceFuse_def candidate_def toResult_def fieldScore_def
        findMismatches_def compareField_def collectUnmatched_def optionsS_def heapS_def
        getField_def Let_def scoreCeiling_90 round_zero lit_0_001 round_half tol_1000)

lemma run_O:
  "performReconciliation (referenceFuse renderNumber) renderNumber heapO [10, 11, 12, 13]
       [20, 21, 22, 23] optionsD =
     \<lparr> common = [\<lparr> gstr2b = 10, purchaseRegister = 22, mismatches = [] \<rparr>,
                 \<lparr> gstr2b = 12, purchaseRegister = 20, mismatches = [] \<rparr>],
       moreInGstr2b = [11, 13],
       lessInGstr2b = [21, 23] \<rparr>"
  by (simp add: performReconciliation_def processEntry_def queryResults_def searchPattern_def
        fuseOptions_def referenceFuse_def candidate_def toResult_def fieldScore_def
        findMismatches_def compareField_def collectUnmatched_def optionsD_def heapO_def
        getField_def Let_def scoreCeiling_90 round_zero round_one)

text \<open>Two runs in which the score of the first result decides, at the threshold 95.\<close>

lemma run_accepted:
  "performReconciliation (fixedAnswer [\<lparr> item = 20, score = Some (roundToDouble 0.05) \<rparr>])
       renderNumber heapD [10] [20] optionsT =
     \<lparr> common = [\<lparr> gstr2b = 10, purchaseRegister = 20, mismatches = [] \<rparr>],
       moreInGstr2b = [],
       lessInGstr2b = [] \<rparr>"
  by (simp add: performReconciliation_def processEntry_def queryResults_def fixedAnswer_def
        findMismatches_def compareField_def collectUnmatched_def optionsT_def
        Let_def scoreCeiling_95 lit_0_05)

lemma run_rejected:
  "performReconciliation (fixedAnswer [\<lparr> item = 20, score = Some (Finite 0.5) \<rparr>])
       renderNumber heapD [10] [20] optionsT =
     \<lparr> common = [], moreInGstr2b = [10], lessInGstr2b = [20] \<rparr>"
  by (simp add: performReconciliation_def processEntry_def queryResults_def fixedAnswer_def
        findMismatches_def compareField_def collectUnmatched_def optionsT_def
        Let_def scoreCeiling_95)

section \<open>Source side of the partition\<close>

text \<open>
  C5. Every GSTR-2B entry is put in exactly one of the two source-side outputs: as multisets,
  the source records of the pairs of \<open>common\<close> together with \<open>moreInGstr2b\<close> are the source
  dataset, so the two lengths add up to the length of the source dataset.
\<close>

theorem source_partition:
  "mset (map gstr2b (common (performReconciliation fuse nts h gs ps options)))
     + mset (moreInGstr2b (performReconciliation fuse nts h gs ps options)) = mset gs
   \<and> length (common (performReconciliation fuse nts h gs ps options))
     + length (moreInGstr2b (performReconciliation fuse nts h gs ps options)) = length gs"
proof
  show "mset (map gstr2b (common (performReconciliation fuse nts h gs ps options)))
     + mset (moreInGstr2b (performReconciliation fuse nts h gs ps options)) = mset gs"
    by (simp add: common_sources moreInGstr2b_eq)
  have "length (map gstr2b (common (performReconciliation fuse nts h gs ps options)))
     + length (moreInGstr2b (performReconciliation fuse nts h gs ps options)) = length gs"
    unfolding common_sources moreInGstr2b_eq by (rule sum_length_filter_compl)
  then show "length (common (performReconciliation fuse nts h gs ps options))
     + length (moreInGstr2b (performReconciliation fuse nts h gs ps options)) = length gs"
    by simp
qed

theorem source_partition_witness:
  "mset (map gstr2b (common (performReconciliation (referenceFuse renderNumber) renderNumber
       heapW [10, 11] [20, 21] optionsW))) + mset [11] = mset [10, 11]
   \<and> length (common (performReconciliation (referenceFuse renderNumber) renderNumber
       heapW [10, 11] [20, 21] optionsW)) + length [11::nat] = length [10::nat, 11]"
  using source_partition [of "referenceFuse renderNumber" renderNumber heapW "[10, 11]"
      "[20, 21]" optionsW]
  by (simp add: run_W)

section \<open>Mismatch detection\<close>

text \<open>
  C7. In every run, no mismatch of any pair of \<open>common\<close> names a key field.
\<close>

theorem no_key_field_mismatch:
  "\<forall>p \<in> set (common (performReconciliation fuse nts h gs ps options)).
     \<forall>m \<in> set (mismatches p). field m \<notin> set (keyFields options)"
proof (intro ballI)
  fix p m
  assume p: "p \<in> set (common (performReconciliation fuse nts h gs ps options))"
    and m: "m \<in> set (mismatches p)"
  from common_pairs [OF p] obtain g where "p = pairFor fuse nts h ps options g" by blast
  with m have "m \<in> set (findMismatches nts options (h g) (h (purchaseRegister p)))"
    by (simp add: mismatches_pairFor)
  then show "field m \<notin> set (keyFields options)" by (rule findMismatches_no_key)
qed

theorem no_key_field_mismatch_witness:
  "mismatches (hd (common (performReconciliation (referenceFuse renderNumber) renderNumber
       heapW [10, 11] [20, 21] optionsW))) \<noteq> []
   \<and> field (hd (mismatches (hd (common (performReconciliation (referenceFuse renderNumber)
       renderNumber heapW [10, 11] [20, 21] optionsW))))) \<notin> set (keyFields optionsW)"
  using no_key_field_mismatch [of "referenceFuse renderNumber" renderNumber heapW
      "[10, 11]" "[20, 21]" optionsW]
  by (simp add: run_W optionsW_fields)

text \<open>
  The comparison on the boundary of the tolerance, in the arithmetic of the code: 3 against
  3.003 exceeds the tolerance, the double \<open>1000.09\<close> against the double \<open>1001.09009\<close> does
  not (the rounded tolerance equals the difference).
\<close>

lemma lit_3_003_raw: "roundToDouble 3.003 = Finite (6762154840496800 / 2 ^ 51)"
  using roundToDouble_eqI [where x = "3.003" and n = 6762154840496800 and j = 51] by simp

lemmas lit_3_003 = lit_3_003_raw [simplified]

lemma diff_3_003_raw:
  "roundToDouble (3 - 6762154840496800 / 2 ^ 51) = Finite (- 6917529027641344 / 2 ^ 61)"
  using roundToDouble_eqI [where x = "3 - 6762154840496800 / 2 ^ 51"
      and n = "- 6917529027641344" and j = 61] by simp

lemmas diff_3_003 = diff_3_003_raw [simplified]

lemma tol_3_raw:
  "roundToDouble (3 * (4611686018427388 / 2 ^ 62)) = Finite (6917529027641082 / 2 ^ 61)"
  using roundToDouble_eqI [where x = "3 * (4611686018427388 / 2 ^ 62)"
      and n = 6917529027641082 and j = 61] by simp

lemmas tol_3 = tol_3_raw [simplified]

lemma lit_1000_09_raw: "roundToDouble 1000.09 = Finite (8796884670579999 / 2 ^ 43)"
  using roundToDouble_eqI [where x = "1000.09" and n = 8796884670579999 and j = 43] by simp

lemmas lit_1000_09 = lit_1000_09_raw [simplified]

lemma lit_1001_09009_raw: "roundToDouble 1001.09009 = Finite (8805681555250579 / 2 ^ 43)"
  using roundToDouble_eqI [where x = "1001.09009" and n = 8805681555250579 and j = 43]
  by simp

lemmas lit_1001_09009 = lit_1001_09009_raw [simplified]

lemma diff_1000_09_raw:
  "roundToDouble (8796884670579999 / 2 ^ 43 - 8805681555250579 / 2 ^ 43) =
     Finite (- 4504004951336960 / 2 ^ 52)"
  using roundToDouble_eqI [where x = "8796884670579999 / 2 ^ 43 - 8805681555250579 / 2 ^ 43"
      and n = "- 4504004951336960" and j = 52] by simp

lemmas diff_1000_09 = diff_1000_09_raw [simplified]

lemma tol_1000_09_raw:
  "roundToDouble (8796884670579999 / 2 ^ 43 * (4611686018427388 / 2 ^ 62)) =
     Finite (4504004951336960 / 2 ^ 52)"
  using roundToDouble_eqI [where x = "8796884670579999 / 2 ^ 43 * (4611686018427388 / 2 ^ 62)"
      and n = 4504004951336960 and j = 52] by simp

lemmas tol_1000_09 = tol_1000_09_raw [simplified]

lemma boundary_values:
  "tolerancePolicy nts (JNum (Finite 3)) (JNum (roundToDouble 3.003))"
  "\<not> tolerancePolicy nts (JNum (roundToDouble 1000.09)) (JNum (roundToDouble 1001.09009))"
  by (simp_all add: tolerancePolicy_def lit_0_001 lit_3_003 diff_3_003 tol_3
        lit_1000_09 lit_1001_09009 diff_1000_09 tol_1000_09)

lemma compare_NaN:
  "js_gt (Math_abs (js_sub s NaN)) tol = False"
  "js_gt (Math_abs (js_sub NaN t)) tol = False"
  by (cases s; simp)+

text \<open>
  C4, a not-a-number operand apart. For every pair of \<open>common\<close>, the mismatch sequence
  holds, in the order of the mapping, one entry for exactly those mapped non-key fields whose two values disagree
  under the tolerance policy: for two numbers, the absolute difference exceeds the absolute
  source value times 0.001, computed as JavaScript computes it; in every other case, the
  stringified values differ. Source 100 against 100.09 gives no mismatch, source 100
  against 100.11 gives one, and source 0 against any double other than zero, finite (the
  rounding of a real) or infinite, gives one; a not-a-number on either side gives none.
\<close>

theorem tolerance_comparison:
  "(\<forall>p \<in> set (common (performReconciliation fuse nts h gs ps options)).
      mismatches p =
        [\<lparr> field = gf, gstr2bValue = getField (h (gstr2b p)) gf,
            purchaseRegisterValue = getField (h (purchaseRegister p)) pf \<rparr>.
           (gf, pf) \<leftarrow> mappedFields options, gf \<notin> set (keyFields options),
           tolerancePolicy nts (getField (h (gstr2b p)) gf) (getField (h (purchaseRegister p)) pf)])
   \<and> (tolerancePolicy nts (JNum s) (JNum t) \<longleftrightarrow>
        js_gt (Math_abs (js_sub s t)) (js_mul (Math_abs s) (roundToDouble 0.001)))
   \<and> ((\<forall>a. u \<noteq> JNum a) \<or> (\<forall>b. v \<noteq> JNum b) \<longrightarrow>
        (tolerancePolicy nts u v \<longleftrightarrow> String_js nts u \<noteq> String_js nts v))
   \<and> findMismatches nts \<lparr> matchingThreshold = th, keyFields = [], mappedFields = [(f, f')] \<rparr>
         [(f, JNum (Finite 100))] [(f', JNum (roundToDouble 100.09))] = []
   \<and> findMismatches nts \<lparr> matchingThreshold = th, keyFields = [], mappedFields = [(f, f')] \<rparr>
         [(f, JNum (Finite 100))] [(f', JNum (roundToDouble 100.11))] =
         [\<lparr> field = f, gstr2bValue = JNum (Finite 100),
            purchaseRegisterValue = JNum (roundToDouble 100.11) \<rparr>]
   \<and> (roundToDouble y \<noteq> Finite 0 \<longrightarrow>
        findMismatches nts \<lparr> matchingThreshold = th, keyFields = [], mappedFields = [(f, f')] \<rparr>
          [(f, JNum (Finite 0))] [(f', JNum (roundToDouble y))] =
          [\<lparr> field = f, gstr2bValue = JNum (Finite 0),
             purchaseRegisterValue = JNum (roundToDouble y) \<rparr>])
   \<and> findMismatches nts \<lparr> matchingThreshold = th, keyFields = [], mappedFields = [(f, f')] \<rparr>
         [(f, JNum (Finite 0))] [(f', JNum PosInf)] =
         [\<lparr> field = f, gstr2bValue = JNum (Finite 0), purchaseRegisterValue = JNum PosInf \<rparr>]
   \<and> findMismatches nts \<lparr> matchingThreshold = th, keyFields = [], mappedFields = [(f, f')] \<rparr>
         [(f, JNum (Finite 0))] [(f', JNum NegInf)] =
         [\<lparr> field = f, gstr2bValue = JNum (Finite 0), purchaseRegisterValue = JNum NegInf \<rparr>]
   \<and> findMismatches nts \<lparr> matchingThreshold = th, keyFields = [], mappedFields = [(f, f')] \<rparr>
         [(f, JNum s)] [(f', JNum NaN)] = []
   \<and> findMismatches nts \<lparr> matchingThreshold = th, keyFields = [], mappedFields = [(f, f')] \<rparr>
         [(f, JNum NaN)] [(f', JNum t)] = []"
proof (intro conjI ballI impI)
  fix p
  assume p: "p \<in> set (common (performReconciliation fuse nts h gs ps options))"
  from common_pairs [OF p] obtain g where g: "p = pairFor fuse nts h ps options g" by blast
  have "mismatches p = findMismatches nts options (h (gstr2b p)) (h (purchaseRegister p))"
    unfolding g by (simp add: mismatches_pairFor)
  then show "mismatches p =
        [\<lparr> field = gf, gstr2bValue = getField (h (gstr2b p)) gf,
            purchaseRegisterValue = getField (h (purchaseRegister p)) pf \<rparr>.
           (gf, pf) \<leftarrow> mappedFields options, gf \<notin> set (keyFields options),
           tolerancePolicy nts (getField (h (gstr2b p)) gf) (getField (h (purchaseRegister p)) pf)]"
    by (simp only: findMismatches_eq)
next
  show "tolerancePolicy nts (JNum s) (JNum t) \<longleftrightarrow>
        js_gt (Math_abs (js_sub s t)) (js_mul (Math_abs s) (roundToDouble 0.001))"
    by (simp add: tolerancePolicy_def)
next
  assume "(\<forall>a. u \<noteq> JNum a) \<or> (\<forall>b. v \<noteq> JNum b)"
  then show "tolerancePolicy nts u v \<longleftrightarrow> String_js nts u \<noteq> String_js nts v"
    by (auto simp: tolerancePolicy_def split: jsval.splits)
next
  show "findMismatches nts \<lparr> matchingThreshold = th, keyFields = [], mappedFields = [(f, f')] \<rparr>
         [(f, JNum (Finite 100))] [(f', JNum (roundToDouble 100.09))] = []"
    by (simp add: findMismatches_def compareField_def getField_def
          lit_0_001 lit_100_09 diff_100_09 tol_100)
next
  show "findMismatches nts \<lparr> matchingThreshold = th, keyFields = [], mappedFields = [(f, f')] \<rparr>
         [(f, JNum (Finite 100))] [(f', JNum (roundToDouble 100.11))] =
         [\<lparr> field = f, gstr2bValue = JNum (Finite 100),
            purchaseRegisterValue = JNum (roundToDouble 100.11) \<rparr>]"
    by (simp add: findMismatches_def compareField_def getField_def
          lit_0_001 lit_100_11 diff_100_11 tol_100)
next
  assume "roundToDouble y \<noteq> Finite 0"
  then have "js_gt (Math_abs (js_sub (Finite 0) (roundToDouble y))) (Finite 0)"
    by (rule zero_against_nonzero)
  then show "findMismatches nts \<lparr> matchingThreshold = th, keyFields = [], mappedFields = [(f, f')] \<rparr>
          [(f, JNum (Finite 0))] [(f', JNum (roundToDouble y))] =
          [\<lparr> field = f, gstr2bValue = JNum (Finite 0),
             purchaseRegisterValue = JNum (roundToDouble y) \<rparr>]"
    by (simp add: findMismatches_def compareField_def getField_def lit_0_001 round_zero)
next
  show "findMismatches nts \<lparr> matchingThreshold = th, keyFields = [], mappedFields = [(f, f')] \<rparr>
         [(f, JNum (Finite 0))] [(f', JNum PosInf)] =
         [\<lparr> field = f, gstr2bValue = JNum (Finite 0), purchaseRegisterValue = JNum PosInf \<rparr>]"
    by (simp add: findMismatches_def compareField_def getField_def lit_0_001 round_zero)
next
  show "findMismatches nts \<lparr> matchingThreshold = th, keyFields = [], mappedFields = [(f, f')] \<rparr>
         [(f, JNum (Finite 0))] [(f', JNum NegInf)] =
         [\<lparr> field = f, gstr2bValue = JNum (Finite 0), purchaseRegisterValue = JNum NegInf \<rparr>]"
    by (simp add: findMismatches_def compareField_def getField_def lit_0_001 round_zero)
next
  show "findMismatches nts \<lparr> matchingThreshold = th, keyFields = [], mappedFields = [(f, f')] \<rparr>
         [(f, JNum s)] [(f', JNum NaN)] = []"
    by (simp add: findMismatches_def compareField_def getField_def compare_NaN)
next
  show "findMismatches nts \<lparr> matchingThreshold = th, keyFields = [], mappedFields = [(f, f')] \<rparr>
         [(f, JNum NaN)] [(f', JNum t)] = []"
    by (simp add: findMismatches_def compareField_def getField_def compare_NaN)
qed

theorem tolerance_comparison_witness:
  "common (performReconciliation (referenceFuse renderNumber) renderNumber
       heapW [10, 11] [20, 21] optionsW) \<noteq> []
   \<and> mismatches (hd (common (performReconciliation (referenceFuse renderNumber) renderNumber
       heapW [10, 11] [20, 21] optionsW))) =
       [\<lparr> field = ''amount'', gstr2bValue = JNum (Finite 100),
          purchaseRegisterValue = JNum (roundToDouble 100.11) \<rparr>]
   \<and> (\<forall>a. JStr ''paid'' \<noteq> JNum a)
   \<and> tolerancePolicy renderNumber (JStr ''paid'') (JStr ''due'')
   \<and> roundToDouble 0.01 \<noteq> Finite 0
   \<and> findMismatches renderNumber
        \<lparr> matchingThreshold = Finite 90, keyFields = [], mappedFields = [(''amount'', ''amt'')] \<rparr>
        [(''amount'', JNum (Finite 0))] [(''amt'', JNum (roundToDouble 0.01))] =
        [\<lparr> field = ''amount'', gstr2bValue = JNum (Finite 0),
           purchaseRegisterValue = JNum (roundToDouble 0.01) \<rparr>]"
  using tolerance_comparison [where fuse = "referenceFuse renderNumber" and nts = renderNumber
      and h = heapW and gs = "[10, 11]" and ps = "[20, 21]" and options = optionsW
      and s = "Finite 100" and t = "roundToDouble 100.11" and u = "JStr ''paid''"
      and v = "JStr ''due''" and th = "Finite 90" and f = "''amount''" and f' = "''amt''"
      and y = "0.01"]
  by (simp add: run_W lit_0_01)

text \<open>
  C4 does not extend to a target that is not-a-number: source 0 against \<open>NaN\<close>, both of
  type number and the target not zero, gives no mismatch.
\<close>

theorem zero_against_NaN:
  "findMismatches renderNumber
     \<lparr> matchingThreshold = Finite 90, keyFields = [], mappedFields = [(''amount'', ''amt'')] \<rparr>
     [(''amount'', JNum (Finite 0))] [(''amt'', JNum NaN)] = []
   \<and> NaN \<noteq> Finite 0"
  by (simp add: findMismatches_def compareField_def getField_def lit_0_001 round_zero)

section \<open>Acceptance\<close>

text \<open>
  C6. For every GSTR-2B entry of a run: a pair for it, with the first result of its query
  as the counterpart, is in \<open>common\<close> if and only if the query returns at least one result
  and the first result's score is at most \<open>1 - threshold / 100\<close>, computed and compared as
  JavaScript numbers; otherwise, and only then, the entry is in \<open>moreInGstr2b\<close>.
\<close>

theorem acceptance_rule:
  "g \<in> set gs \<Longrightarrow>
     ((\<exists>p \<in> set (common (performReconciliation fuse nts h gs ps options)).
          gstr2b p = g \<and> purchaseRegister p = item (hd (queryResults fuse nts h ps options g)))
        \<longleftrightarrow> queryResults fuse nts h ps options g \<noteq> [] \<and>
            (\<exists>s. score (hd (queryResults fuse nts h ps options g)) = Some s \<and>
                 js_le s (js_sub (Finite 1) (js_div_100 (matchingThreshold options)))))
   \<and> (g \<in> set (moreInGstr2b (performReconciliation fuse nts h gs ps options))
        \<longleftrightarrow> \<not> (queryResults fuse nts h ps options g \<noteq> [] \<and>
            (\<exists>s. score (hd (queryResults fuse nts h ps options g)) = Some s \<and>
                 js_le s (js_sub (Finite 1) (js_div_100 (matchingThreshold options))))))"
proof
  assume g: "g \<in> set gs"
  have pf: "purchaseRegister (pairFor fuse nts h ps options g) =
      item (hd (queryResults fuse nts h ps options g))"
    by (simp add: pairFor_def Let_def)
  show "(\<exists>p \<in> set (common (performReconciliation fuse nts h gs ps options)).
          gstr2b p = g \<and> purchaseRegister p = item (hd (queryResults fuse nts h ps options g)))
        \<longleftrightarrow> queryResults fuse nts h ps options g \<noteq> [] \<and>
            (\<exists>s. score (hd (queryResults fuse nts h ps options g)) = Some s \<and>
                 js_le s (js_sub (Finite 1) (js_div_100 (matchingThreshold options))))"
    unfolding takesMatch_iff [symmetric]
  proof
    assume "\<exists>p \<in> set (common (performReconciliation fuse nts h gs ps options)).
          gstr2b p = g \<and> purchaseRegister p = item (hd (queryResults fuse nts h ps options g))"
    then obtain p where p: "p \<in> set (common (performReconciliation fuse nts h gs ps options))"
      and gp: "gstr2b p = g" by blast
    from common_pairs [OF p] gp show "takesMatch fuse nts h ps options g" by auto
  next
    assume t: "takesMatch fuse nts h ps options g"
    with g have "pairFor fuse nts h ps options g
        \<in> set (common (performReconciliation fuse nts h gs ps options))"
      by (simp add: performReconciliation_shape)
    with pf show "\<exists>p \<in> set (common (performReconciliation fuse nts h gs ps options)).
          gstr2b p = g \<and> purchaseRegister p = item (hd (queryResults fuse nts h ps options g))"
      by (intro bexI [of _ "pairFor fuse nts h ps options g"]) simp_all
  qed
  show "g \<in> set (moreInGstr2b (performReconciliation fuse nts h gs ps options))
        \<longleftrightarrow> \<not> (queryResults fuse nts h ps options g \<noteq> [] \<and>
            (\<exists>s. score (hd (queryResults fuse nts h ps options g)) = Some s \<and>
                 js_le s (js_sub (Finite 1) (js_div_100 (matchingThreshold options)))))"
    unfolding takesMatch_iff [symmetric] using g by (simp add: moreInGstr2b_eq)
qed

theorem acceptance_rule_witness:
  "(10::nat) \<in> set [10]
   \<and> queryResults (fixedAnswer [\<lparr> item = 20, score = Some (roundToDouble 0.05) \<rparr>])
        renderNumber heapD [20] optionsT 10 \<noteq> []
   \<and> js_le (roundToDouble 0.05) (js_sub (Finite 1) (js_div_100 (matchingThreshold optionsT)))
   \<and> map gstr2b (common (performReconciliation
        (fixedAnswer [\<lparr> item = 20, score = Some (roundToDouble 0.05) \<rparr>])
        renderNumber heapD [10] [20] optionsT)) = [10]
   \<and> queryResults (fixedAnswer [\<lparr> item = 20, score = Some (Finite 0.5) \<rparr>])
        renderNumber heapD [20] optionsT 10 \<noteq> []
   \<and> \<not> js_le (Finite 0.5) (js_sub (Finite 1) (js_div_100 (matchingThreshold optionsT)))
   \<and> 10 \<in> set (moreInGstr2b (performReconciliation
        (fixedAnswer [\<lparr> item = 20, score = Some (Finite 0.5) \<rparr>])
        renderNumber heapD [10] [20] optionsT))"
proof -
  let ?A = "fixedAnswer [\<lparr> item = 20, score = Some (roundToDouble 0.05) \<rparr>]"
  let ?B = "fixedAnswer [\<lparr> item = 20, score = Some (Finite 0.5) \<rparr>]"
  have mem: "(10::nat) \<in> set [10]" by simp
  have qa: "queryResults ?A renderNumber heapD [20] optionsT 10 =
      [\<lparr> item = 20, score = Some (roundToDouble 0.05) \<rparr>]"
    and qb: "queryResults ?B renderNumber heapD [20] optionsT 10 =
      [\<lparr> item = 20, score = Some (Finite 0.5) \<rparr>]"
    by (simp_all add: queryResults_def fixedAnswer_def)
  have "\<exists>p \<in> set (common (performReconciliation ?A renderNumber heapD [10] [20] optionsT)).
      gstr2b p = 10 \<and>
      purchaseRegister p = item (hd (queryResults ?A renderNumber heapD [20] optionsT 10))"
    unfolding run_accepted qa by simp
  with acceptance_rule [OF mem, of ?A renderNumber heapD "[20]" optionsT]
  have "\<exists>s. score (hd (queryResults ?A renderNumber heapD [20] optionsT 10)) = Some s \<and>
      js_le s (js_sub (Finite 1) (js_div_100 (matchingThreshold optionsT)))"
    by blast
  then have a: "js_le (roundToDouble 0.05)
      (js_sub (Finite 1) (js_div_100 (matchingThreshold optionsT)))"
    unfolding qa by simp
  have inb: "10 \<in> set (moreInGstr2b
      (performReconciliation ?B renderNumber heapD [10] [20] optionsT))"
    unfolding run_rejected by simp
  with acceptance_rule [OF mem, of ?B renderNumber heapD "[20]" optionsT]
  have "\<not> (queryResults ?B renderNumber heapD [20] optionsT 10 \<noteq> [] \<and>
      (\<exists>s. score (hd (queryResults ?B renderNumber heapD [20] optionsT 10)) = Some s \<and>
           js_le s (js_sub (Finite 1) (js_div_100 (matchingThreshold optionsT)))))"
    by blast
  then have b: "\<not> js_le (Finite 0.5)
      (js_sub (Finite 1) (js_div_100 (matchingThreshold optionsT)))"
    unfolding qb by simp
  have c: "map gstr2b (common (performReconciliation ?A renderNumber heapD [10] [20] optionsT))
      = [10]"
    unfolding run_accepted by simp
  have na: "queryResults ?A renderNumber heapD [20] optionsT 10 \<noteq> []"
    and nb: "queryResults ?B renderNumber heapD [20] optionsT 10 \<noteq> []"
    unfolding qa qb by simp_all
  from mem na a c nb b inb show ?thesis by (intro conjI)
qed

section \<open>Order of the outputs\<close>

text \<open>
  C10. The three outputs keep the order of the inputs. The source records of \<open>common\<close> are
  the source dataset restricted to the accepted entries, \<open>moreInGstr2b\<close> is the source
  dataset restricted to the entries that are not accepted, and \<open>lessInGstr2b\<close> is the
  target dataset restricted to the positions that \<open>indexOf\<close> does not give for the
  counterpart of any pair; hence each is a subsequence of its dataset.
\<close>

theorem output_order:
  "map gstr2b (common (performReconciliation fuse nts h gs ps options)) =
       filter (\<lambda>g. queryResults fuse nts h ps options g \<noteq> [] \<and>
                 (\<exists>s. score (hd (queryResults fuse nts h ps options g)) = Some s \<and>
                      js_le s (js_sub (Finite 1) (js_div_100 (matchingThreshold options))))) gs
   \<and> moreInGstr2b (performReconciliation fuse nts h gs ps options) =
       filter (\<lambda>g. \<not> (queryResults fuse nts h ps options g \<noteq> [] \<and>
                 (\<exists>s. score (hd (queryResults fuse nts h ps options g)) = Some s \<and>
                      js_le s (js_sub (Finite 1) (js_div_100 (matchingThreshold options)))))) gs
   \<and> lessInGstr2b (performReconciliation fuse nts h gs ps options) =
       nths ps {i. int i \<notin> (\<lambda>p. indexOf ps (purchaseRegister p)) `
                   set (common (performReconciliation fuse nts h gs ps options))}
   \<and> subseq (map gstr2b (common (performReconciliation fuse nts h gs ps options))) gs
   \<and> subseq (moreInGstr2b (performReconciliation fuse nts h gs ps options)) gs
   \<and> subseq (lessInGstr2b (performReconciliation fuse nts h gs ps options)) ps"
proof (intro conjI)
  show "map gstr2b (common (performReconciliation fuse nts h gs ps options)) =
       filter (\<lambda>g. queryResults fuse nts h ps options g \<noteq> [] \<and>
                 (\<exists>s. score (hd (queryResults fuse nts h ps options g)) = Some s \<and>
                      js_le s (js_sub (Finite 1) (js_div_100 (matchingThreshold options))))) gs"
    unfolding takesMatch_iff [symmetric] by (rule common_sources)
  show "moreInGstr2b (performReconciliation fuse nts h gs ps options) =
       filter (\<lambda>g. \<not> (queryResults fuse nts h ps options g \<noteq> [] \<and>
                 (\<exists>s. score (hd (queryResults fuse nts h ps options g)) = Some s \<and>
                      js_le s (js_sub (Finite 1) (js_div_100 (matchingThreshold options)))))) gs"
    unfolding takesMatch_iff [symmetric] by (rule moreInGstr2b_eq)
  show "lessInGstr2b (performReconciliation fuse nts h gs ps options) =
       nths ps {i. int i \<notin> (\<lambda>p. indexOf ps (purchaseRegister p)) `
                   set (common (performReconciliation fuse nts h gs ps options))}"
    by (rule lessInGstr2b_eq)
  show "subseq (map gstr2b (common (performReconciliation fuse nts h gs ps options))) gs"
    by (simp add: common_sources)
  show "subseq (moreInGstr2b (performReconciliation fuse nts h gs ps options)) gs"
    by (simp add: moreInGstr2b_eq)
  show "subseq (lessInGstr2b (performReconciliation fuse nts h gs ps options)) ps"
    by (simp add: performReconciliation_shape subseq_map_snd_filter_enumerate)
qed

theorem output_order_witness:
  "map gstr2b (common (performReconciliation (referenceFuse renderNumber) renderNumber heapO
       [10, 11, 12, 13] [20, 21, 22, 23] optionsD)) = [10, 12]
   \<and> map purchaseRegister (common (performReconciliation (referenceFuse renderNumber)
       renderNumber heapO [10, 11, 12, 13] [20, 21, 22, 23] optionsD)) = [22, 20]
   \<and> moreInGstr2b (performReconciliation (referenceFuse renderNumber) renderNumber heapO
       [10, 11, 12, 13] [20, 21, 22, 23] optionsD) = [11, 13]
   \<and> lessInGstr2b (performReconciliation (referenceFuse renderNumber) renderNumber heapO
       [10, 11, 12, 13] [20, 21, 22, 23] optionsD) = [21, 23]
   \<and> subseq (map gstr2b (common (performReconciliation (referenceFuse renderNumber)
       renderNumber heapO [10, 11, 12, 13] [20, 21, 22, 23] optionsD))) [10, 11, 12, 13]
   \<and> subseq (moreInGstr2b (performReconciliation (referenceFuse renderNumber) renderNumber
       heapO [10, 11, 12, 13] [20, 21, 22, 23] optionsD)) [10, 11, 12, 13]
   \<and> subseq (lessInGstr2b (performReconciliation (referenceFuse renderNumber) renderNumber
       heapO [10, 11, 12, 13] [20, 21, 22, 23] optionsD)) [20, 21, 22, 23]
   \<and> lessInGstr2b (performReconciliation (referenceFuse renderNumber) renderNumber heapO
       [10, 11, 12, 13] [20, 21, 22, 23] optionsD) =
       nths [20, 21, 22, 23] {i. int i \<notin> (\<lambda>p. indexOf [20, 21, 22, 23] (purchaseRegister p)) `
         set (common (performReconciliation (referenceFuse renderNumber) renderNumber heapO
           [10, 11, 12, 13] [20, 21, 22, 23] optionsD))}"
proof -
  note inst = output_order [of "referenceFuse renderNumber" renderNumber heapO
      "[10, 11, 12, 13]" "[20, 21, 22, 23]" optionsD]
  have run: "map gstr2b (common (performReconciliation (referenceFuse renderNumber)
        renderNumber heapO [10, 11, 12, 13] [20, 21, 22, 23] optionsD)) = [10, 12]"
    "map purchaseRegister (common (performReconciliation (referenceFuse renderNumber)
        renderNumber heapO [10, 11, 12, 13] [20, 21, 22, 23] optionsD)) = [22, 20]"
    "moreInGstr2b (performReconciliation (referenceFuse renderNumber) renderNumber heapO
        [10, 11, 12, 13] [20, 21, 22, 23] optionsD) = [11, 13]"
    "lessInGstr2b (performReconciliation (referenceFuse renderNumber) renderNumber heapO
        [10, 11, 12, 13] [20, 21, 22, 23] optionsD) = [21, 23]"
    by (simp_all add: run_O)
  from inst run show ?thesis by blast
qed

section \<open>Column mapping suggestions\<close>

lemma includes_js_iff: "includes_js s k \<longleftrightarrow> (\<exists>before after. s = before @ k @ after)"
proof (induction s)
  case Nil
  show ?case by simp
next
  case (Cons c s)
  show ?case
  proof
    assume "includes_js (c # s) k"
    then consider "prefix k (c # s)" | "includes_js s k" by auto
    then show "\<exists>before after. c # s = before @ k @ after"
    proof cases
      case 1
      then obtain after where "c # s = k @ after" by (auto simp: prefix_def)
      then have "c # s = [] @ k @ after" by simp
      then show ?thesis by blast
    next
      case 2
      with Cons.IH obtain before after where "s = before @ k @ after" by blast
      then have "c # s = (c # before) @ k @ after" by simp
      then show ?thesis by blast
    qed
  next
    assume "\<exists>before after. c # s = before @ k @ after"
    then obtain before after where e: "c # s = before @ k @ after" by blast
    show "includes_js (c # s) k"
    proof (cases before)
      case Nil
      with e have "prefix k (c # s)" by (simp add: prefix_def)
      then show ?thesis by simp
    next
      case (Cons b before')
      with e have "s = before' @ k @ after" by simp
      with Cons.IH have "includes_js s k" by blast
      then show ?thesis by simp
    qed
  qed
qed

lemma headerHasKeyword_iff:
  "headerHasKeyword keywords (toLowerCase header) \<longleftrightarrow> containsKeyword header keywords"
  by (simp add: headerHasKeyword_def containsKeyword_def list_ex_iff includes_js_iff)

lemma containsKeyword_nonempty:
  assumes "containsKeyword header keywords" and "[] \<notin> set keywords"
  shows "header \<noteq> []"
proof
  assume "header = []"
  with assms(1) obtain keyword where "keyword \<in> set keywords" and "toLowerCase keyword = []"
    by (auto simp: containsKeyword_def toLowerCase_def)
  with assms(2) show False by (auto simp: toLowerCase_def)
qed

lemma firstTargetFor_nonempty:
  assumes "firstTargetFor keywordSet targetHeaders = Some t" and "[] \<notin> set (pr keywordSet)"
  shows "t \<noteq> []"
proof -
  from assms(1) have "containsKeyword t (pr keywordSet)"
    by (auto simp: firstTargetFor_def find_Some_iff)
  from this assms(2) show ?thesis by (rule containsKeyword_nonempty)
qed

lemma scanKeywordSets_eq:
  assumes "\<forall>keywordSet \<in> set groups. [] \<notin> set (pr keywordSet)"
  shows "scanKeywordSets targetHeaders (toLowerCase header) groups =
     (case find (\<lambda>keywordSet. containsKeyword header (gstr keywordSet)
                    \<and> firstTargetFor keywordSet targetHeaders \<noteq> None) groups of
        None \<Rightarrow> None
      | Some keywordSet \<Rightarrow> firstTargetFor keywordSet targetHeaders)"
  using assms
proof (induction groups)
  case Nil
  show ?case by simp
next
  case (Cons keywordSet groups)
  then have ne: "[] \<notin> set (pr keywordSet)"
    and IH: "scanKeywordSets targetHeaders (toLowerCase header) groups =
     (case find (\<lambda>keywordSet. containsKeyword header (gstr keywordSet)
                    \<and> firstTargetFor keywordSet targetHeaders \<noteq> None) groups of
        None \<Rightarrow> None
      | Some keywordSet \<Rightarrow> firstTargetFor keywordSet targetHeaders)"
    by simp_all
  show ?case
  proof (cases "firstTargetFor keywordSet targetHeaders")
    case None
    then show ?thesis
      by (simp add: IH Let_def headerHasKeyword_iff firstTargetFor_def)
  next
    case (Some t)
    from Some ne have "t \<noteq> []" by (rule firstTargetFor_nonempty)
    with Some show ?thesis
      by (simp add: IH Let_def headerHasKeyword_iff firstTargetFor_def)
  qed
qed

lemma commonKeywords_nonempty: "\<forall>keywordSet \<in> set commonKeywords. [] \<notin> set (pr keywordSet)"
  by (simp add: commonKeywords_def)

lemma scan_commonKeywords:
  "scanKeywordSets targetHeaders (toLowerCase header) commonKeywords =
     suggestionFor targetHeaders header"
  unfolding suggestionFor_def by (rule scanKeywordSets_eq [OF commonKeywords_nonempty])

lemma suggestHeader_eq:
  "suggestHeader targetHeaders a m =
     (case suggestionFor targetHeaders a of None \<Rightarrow> m | Some t \<Rightarrow> m(a \<mapsto> t))"
  by (simp add: suggestHeader_def scan_commonKeywords)

lemma fold_suggestHeader:
  "fold (suggestHeader targetHeaders) sourceHeaders m0 header =
     (if header \<in> set sourceHeaders \<and> suggestionFor targetHeaders header \<noteq> None
      then suggestionFor targetHeaders header else m0 header)"
proof (induction sourceHeaders arbitrary: m0)
  case Nil
  show ?case by simp
next
  case (Cons a sourceHeaders)
  have "fold (suggestHeader targetHeaders) (a # sourceHeaders) m0 header =
      fold (suggestHeader targetHeaders) sourceHeaders (suggestHeader targetHeaders a m0) header"
    by simp
  also have "\<dots> = (if header \<in> set sourceHeaders \<and> suggestionFor targetHeaders header \<noteq> None
      then suggestionFor targetHeaders header else suggestHeader targetHeaders a m0 header)"
    by (rule Cons.IH)
  also have "\<dots> = (if header \<in> set (a # sourceHeaders) \<and> suggestionFor targetHeaders header \<noteq> None
      then suggestionFor targetHeaders header else m0 header)"
    by (cases "suggestionFor targetHeaders a") (auto simp: suggestHeader_eq)
  finally show ?case .
qed

lemma scan_invoice_no:
  "scanKeywordSets [''Vendor GST'', ''Bill Dt''] (toLowerCase ''Invoice No'') commonKeywords =
     Some ''Bill Dt''"
  by (simp add: commonKeywords_def headerHasKeyword_def toLowerCase_def lowerChar_def)

lemma scan_invoice_date:
  "scanKeywordSets [''Posting Date''] (toLowerCase ''Invoice Date'') commonKeywords =
     Some ''Posting Date''"
  by (simp add: commonKeywords_def headerHasKeyword_def toLowerCase_def lowerChar_def)

lemma scan_remarks:
  "scanKeywordSets [''Vendor GST'', ''Bill Dt''] (toLowerCase ''Remarks'') commonKeywords = None"
  by (simp add: commonKeywords_def headerHasKeyword_def toLowerCase_def lowerChar_def)

text \<open>
  C8. For every pair of header lists and every header: the returned mapping has an entry
  for the header exactly when it is one of the source headers and some keyword group, taken
  in declaration order, has a source keyword that the header contains (ignoring case) and
  a target header containing one of its target keywords; the entry is then the first such
  target header, in the order of the target list, of the first such group. Every other
  header has no entry.
\<close>

theorem suggestColumnMappings_rule:
  "suggestColumnMappings sourceHeaders targetHeaders header =
     (if header \<in> set sourceHeaders then suggestionFor targetHeaders header else None)"
proof -
  have "suggestColumnMappings sourceHeaders targetHeaders header =
      fold (suggestHeader targetHeaders) sourceHeaders Map.empty header"
    by (simp add: suggestColumnMappings_def)
  also have "\<dots> =
      (if header \<in> set sourceHeaders \<and> suggestionFor targetHeaders header \<noteq> None
       then suggestionFor targetHeaders header else Map.empty header)"
    by (rule fold_suggestHeader)
  also have "\<dots> =
      (if header \<in> set sourceHeaders then suggestionFor targetHeaders header else None)"
    by auto
  finally show ?thesis .
qed

theorem suggestColumnMappings_rule_witness:
  "suggestionFor [''Vendor GST'', ''Bill Dt''] ''Invoice No'' = Some ''Bill Dt''
   \<and> suggestionFor [''Vendor GST'', ''Bill Dt''] ''Remarks'' = None
   \<and> suggestColumnMappings [''Invoice No'', ''Remarks''] [''Vendor GST'', ''Bill Dt'']
        ''Invoice No'' = Some ''Bill Dt''
   \<and> suggestColumnMappings [''Invoice No'', ''Remarks''] [''Vendor GST'', ''Bill Dt'']
        ''Remarks'' = None
   \<and> suggestColumnMappings [''Invoice Date''] [''Posting Date''] ''Invoice Date''
        = Some ''Posting Date''"
proof -
  have a: "suggestColumnMappings [''Invoice No'', ''Remarks''] [''Vendor GST'', ''Bill Dt'']
        ''Invoice No'' = Some ''Bill Dt''"
    by (simp add: suggestColumnMappings_def suggestHeader_def scan_invoice_no scan_remarks)
  have b: "suggestColumnMappings [''Invoice No'', ''Remarks''] [''Vendor GST'', ''Bill Dt'']
        ''Remarks'' = None"
    by (simp add: suggestColumnMappings_def suggestHeader_def scan_invoice_no scan_remarks)
  have c: "suggestColumnMappings [''Invoice Date''] [''Posting Date''] ''Invoice Date''
        = Some ''Posting Date''"
    by (simp add: suggestColumnMappings_def suggestHeader_def scan_invoice_date)
  from a suggestColumnMappings_rule [of "[''Invoice No'', ''Remarks'']"
      "[''Vendor GST'', ''Bill Dt'']" "''Invoice No''"]
  have a': "suggestionFor [''Vendor GST'', ''Bill Dt''] ''Invoice No'' = Some ''Bill Dt''"
    by simp
  from b suggestColumnMappings_rule [of "[''Invoice No'', ''Remarks'']"
      "[''Vendor GST'', ''Bill Dt'']" "''Remarks''"]
  have b': "suggestionFor [''Vendor GST'', ''Bill Dt''] ''Remarks'' = None"
    by simp
  from a' b' a b c show ?thesis by (intro conjI)
qed

section \<open>Runs without key fields\<close>

lemma searchPattern_no_keys: "searchPattern nts [] entry = []"
  by (simp add: searchPattern_def)

lemma referenceFuse_no_keys: "referenceFuse nts h docs fo [] = []"
  by (simp add: referenceFuse_def)

text \<open>
  C9. With an empty list of key fields the engine raises no error and returns a result as
  for any other options: the index is built with no keys, every entry is searched with
  the empty pattern, and according to the answer of the library to that one query either
  every GSTR-2B entry is paired with its first result or every entry goes to
  \<open>moreInGstr2b\<close> and every purchase register entry to \<open>lessInGstr2b\<close>. The engine has no
  check of the key fields; the Reconcile button is disabled when none is selected.
\<close>

theorem empty_keyFields_run:
  "keyFields options = [] \<Longrightarrow>
     keys (fuseOptions options) = []
   \<and> queryResults fuse nts h ps options g = fuse h ps (fuseOptions options) []
   \<and> (if fuse h ps (fuseOptions options) [] \<noteq> [] \<and>
          (\<exists>s. score (hd (fuse h ps (fuseOptions options) [])) = Some s \<and>
               js_le s (js_sub (Finite 1) (js_div_100 (matchingThreshold options))))
       then map gstr2b (common (performReconciliation fuse nts h gs ps options)) = gs
          \<and> map purchaseRegister (common (performReconciliation fuse nts h gs ps options)) =
              replicate (length gs) (item (hd (fuse h ps (fuseOptions options) [])))
          \<and> moreInGstr2b (performReconciliation fuse nts h gs ps options) = []
       else common (performReconciliation fuse nts h gs ps options) = []
          \<and> moreInGstr2b (performReconciliation fuse nts h gs ps options) = gs
          \<and> lessInGstr2b (performReconciliation fuse nts h gs ps options) = ps)
   \<and> reconcileDisabled isDisabled (keyFields options)"
proof -
  assume kf: "keyFields options = []"
  let ?res = "fuse h ps (fuseOptions options) []"
  let ?acc = "?res \<noteq> [] \<and>
      (\<exists>s. score (hd ?res) = Some s \<and> js_le s (js_sub (Finite 1) (js_div_100 (matchingThreshold options))))"
  let ?R = "performReconciliation fuse nts h gs ps options"
  have q: "queryResults fuse nts h ps options e = ?res" for e
    by (simp add: queryResults_def kf searchPattern_no_keys)
  have tm: "takesMatch fuse nts h ps options e \<longleftrightarrow> ?acc" for e
    by (simp add: takesMatch_iff q)
  have pr: "purchaseRegister (pairFor fuse nts h ps options e) = item (hd ?res)" for e
    by (simp add: pairFor_def Let_def q)
  have yes: "map gstr2b (common ?R) = gs
      \<and> map purchaseRegister (common ?R) = replicate (length gs) (item (hd ?res))
      \<and> moreInGstr2b ?R = []" if ?acc
  proof (intro conjI)
    from that show "map gstr2b (common ?R) = gs"
      by (simp add: common_sources tm)
    from that have "common ?R = map (pairFor fuse nts h ps options) gs"
      by (simp add: performReconciliation_shape tm)
    then show "map purchaseRegister (common ?R) = replicate (length gs) (item (hd ?res))"
      by (simp add: comp_def pr map_replicate_const)
    from that show "moreInGstr2b ?R = []"
      by (simp add: moreInGstr2b_eq tm)
  qed
  have no: "common ?R = [] \<and> moreInGstr2b ?R = gs \<and> lessInGstr2b ?R = ps" if "\<not> ?acc"
  proof -
    from that have none: "\<not> takesMatch fuse nts h ps options e" for e
      using tm [of e] by blast
    then have "matchedIndices fuse nts h gs ps options = {}"
      by (simp add: matchedIndices_def)
    with none show ?thesis
      by (simp add: performReconciliation_shape)
  qed
  have "reconcileDisabled isDisabled (keyFields options)"
    by (simp add: reconcileDisabled_def kf)
  moreover have "keys (fuseOptions options) = []"
    by (simp add: fuseOptions_def kf)
  ultimately show ?thesis using q [of g] yes no by (simp split: if_splits)
qed

theorem empty_keyFields_run_witness:
  "keyFields optionsN = []
   \<and> performReconciliation (referenceFuse renderNumber) renderNumber heapW [10, 11] [20, 21]
       optionsN = \<lparr> common = [], moreInGstr2b = [10, 11], lessInGstr2b = [20, 21] \<rparr>
   \<and> reconcileDisabled False (keyFields optionsN)"
proof -
  have kf: "keyFields optionsN = []" by (simp add: optionsN_def)
  from empty_keyFields_run [OF kf, of "referenceFuse renderNumber" renderNumber heapW
      "[20, 21]" 10 "[10, 11]" False]
  have "common (performReconciliation (referenceFuse renderNumber) renderNumber heapW
          [10, 11] [20, 21] optionsN) = []
      \<and> moreInGstr2b (performReconciliation (referenceFuse renderNumber) renderNumber heapW
          [10, 11] [20, 21] optionsN) = [10, 11]
      \<and> lessInGstr2b (performReconciliation (referenceFuse renderNumber) renderNumber heapW
          [10, 11] [20, 21] optionsN) = [20, 21]
      \<and> reconcileDisabled False (keyFields optionsN)"
    by (simp add: referenceFuse_no_keys)
  with kf show ?thesis
    by (cases "performReconciliation (referenceFuse renderNumber) renderNumber heapW
          [10, 11] [20, 21] optionsN") simp
qed

section \<open>The fields of the index\<close>

lemma fuseOptions_keys: "keys (fuseOptions options) = keyFields options"
  by (simp add: fuseOptions_def)

lemma fst_set_update: "fst ` set (AList.update k v al) = insert k (fst ` set al)"
  by (induction al) auto

lemma fold_update_keys:
  "fst ` set (fold (\<lambda>k sp. AList.update k (f k) sp) kfs al) = set kfs \<union> fst ` set al"
  by (induction kfs arbitrary: al) (simp_all add: fst_set_update)

lemma searchPattern_keys: "fst ` set (searchPattern nts kfs entry) = set kfs"
  by (simp add: searchPattern_def fold_update_keys)

text \<open>
  C2, on the end-to-end scenario. The index is built with the keys \<open>invoice\<close> and \<open>gstin\<close>
  and queried under the same two names, which are the GSTR-2B names of the key fields; the
  mapping takes them to \<open>inv_no\<close> and \<open>gst\<close>, the names under which the purchase register
  records hold the values.
\<close>

theorem untranslated_index_fields:
  "keys (fuseOptions optionsE) = [''invoice'', ''gstin'']
   \<and> map fst (searchPattern renderNumber (keyFields optionsE) (heapE 10)) = [''invoice'', ''gstin'']
   \<and> map (map_of (mappedFields optionsE)) (keyFields optionsE) = [Some ''inv_no'', Some ''gst'']"
  by (simp add: fuseOptions_def searchPattern_def optionsE_def)

section \<open>The end-to-end scenario\<close>

lemma docScore_cong:
  "(\<forall>k \<in> set ks. getField doc k = getField doc' k) \<Longrightarrow>
   docScore nts ks doc pat = docScore nts ks doc' pat"
proof (induction pat)
  case Nil
  show ?case by simp
next
  case (Cons e pat)
  obtain k p where e: "e = (k, p)" by (cases e)
  from Cons show ?case by (simp add: e split: jsval.split)
qed

lemma referenceFuse_keyScoped: "keyScoped (referenceFuse nts)"
proof -
  have "referenceFuse nts h docs fo pat = referenceFuse nts h' docs fo pat"
    if "\<forall>d \<in> set docs. \<forall>k \<in> set (keys fo). getField (h d) k = getField (h' d) k"
    for h h' docs fo pat
  proof -
    from that have "candidate nts h fo pat d = candidate nts h' fo pat d" if "d \<in> set docs" for d
      using that docScore_cong [of "keys fo" "h d" "h' d" nts pat] by (simp add: candidate_def)
    then have "map (candidate nts h fo pat) docs = map (candidate nts h' fo pat) docs"
      by simp
    then show ?thesis by (simp only: referenceFuse_def)
  qed
  then show ?thesis unfolding keyScoped_def by blast
qed

text \<open>
  Whatever the index, if it is scoped to its keys it answers the query of the end-to-end
  scenario as it would were the purchase register record an empty object: the record has
  no property named \<open>invoice\<close> or \<open>gstin\<close>.
\<close>

lemma scenario_query_blind:
  assumes "keyScoped fuse"
  shows "queryResults fuse nts heapE [20] optionsE 10 =
     fuse (heapE(20 := [])) [20] (fuseOptions optionsE)
       (searchPattern nts (keyFields optionsE) (heapE 10))"
proof -
  have "\<forall>d \<in> set [20]. \<forall>k \<in> set (keys (fuseOptions optionsE)).
      getField (heapE d) k = getField ((heapE(20 := [])) d) k"
    by (simp add: fuseOptions_def optionsE_def heapE_def getField_def)
  with assms show ?thesis
    unfolding keyScoped_def queryResults_def by blast
qed

text \<open>
  C3. On the end-to-end scenario the run of the engine over the reference index pairs
  nothing: the GSTR-2B entry is returned in \<open>moreInGstr2b\<close> and the purchase register entry
  in \<open>lessInGstr2b\<close>.
\<close>

theorem end_to_end_run:
  "performReconciliation (referenceFuse renderNumber) renderNumber heapE [10] [20] optionsE =
     \<lparr> common = [], moreInGstr2b = [10], lessInGstr2b = [20] \<rparr>"
  by (simp add: performReconciliation_def processEntry_def queryResults_def searchPattern_def
        fuseOptions_def referenceFuse_def candidate_def toResult_def fieldScore_def
        findMismatches_def compareField_def collectUnmatched_def optionsE_def heapE_def
        getField_def Let_def scoreCeiling_90)

section \<open>Target side of the partition\<close>

text \<open>
  Two entries whose queries get the same answer are paired with the same purchase register
  record when the answer is accepted: the set \<open>matchedPurchaseIndices\<close> is written but
  never read before a pair is pushed.
\<close>

lemma shared_counterpart:
  assumes "queryResults fuse nts h ps options g = queryResults fuse nts h ps options g'"
    and "takesMatch fuse nts h ps options g"
  shows "map purchaseRegister (common (performReconciliation fuse nts h [g, g'] ps options)) =
     [item (hd (queryResults fuse nts h ps options g)),
      item (hd (queryResults fuse nts h ps options g))]"
proof -
  from assms have "takesMatch fuse nts h ps options g'"
    by (simp add: takesMatch_def)
  with assms show ?thesis
    by (simp add: performReconciliation_shape pairFor_def Let_def)
qed

text \<open>
  C1, on two GSTR-2B entries with the same invoice number and one purchase register entry
  with that number. Both entries are paired with the one purchase register record, so the
  record is the counterpart of two pairs and \<open>common\<close> and \<open>lessInGstr2b\<close> together have two
  elements for a target dataset of one.
\<close>

theorem duplicate_target_run:
  "performReconciliation (referenceFuse renderNumber) renderNumber heapD [10, 11] [20] optionsD =
     \<lparr> common = [\<lparr> gstr2b = 10, purchaseRegister = 20, mismatches = [] \<rparr>,
                 \<lparr> gstr2b = 11, purchaseRegister = 20, mismatches = [] \<rparr>],
       moreInGstr2b = [],
       lessInGstr2b = [] \<rparr>"
  by (simp add: performReconciliation_def processEntry_def queryResults_def searchPattern_def
        fuseOptions_def referenceFuse_def candidate_def toResult_def fieldScore_def
        findMismatches_def compareField_def collectUnmatched_def optionsD_def heapD_def
        getField_def Let_def scoreCeiling_90 round_zero)

end
